theory Spec2Isabelle
  imports Main
begin

section \<open>Python values at the boundary to the search and scrape provider\<close>

text \<open>
  The two tools of \<^verbatim>\<open>langchain_firecrawl_agent.py\<close> read whatever the Firecrawl client
  returns through \<^verbatim>\<open>getattr\<close>, \<^verbatim>\<open>hasattr\<close>, \<^verbatim>\<open>.get\<close>, truthiness tests, \<^verbatim>\<open>len\<close> and
  slicing, inside one \<^verbatim>\<open>try\<close> block. The response is therefore modelled as a dynamically
  typed value: the JSON-like data values, a plain data object with named attributes
  (\<open>PObj\<close>, such as a pydantic response model) and an opaque object (\<open>POpaque\<close>, such as a
  bound method) that has none of the attributes read here. Floats are left out.
\<close>

datatype pyval =
    PNone
  | PBool bool
  | PInt int
  | PStr string
  | PList "pyval list"
  | PDict "(string \<times> pyval) list"
  | PObj "(string \<times> pyval) list"
  | POpaque

text \<open>Exceptions derived from \<^verbatim>\<open>Exception\<close>, each with the text of \<^verbatim>\<open>str(e)\<close>.\<close>

datatype pyexn =
    TypeError string
  | AttributeError string
  | KeyError string
  | ValueError string
  | UnicodeEncodeError string
  | ZeroDivisionError string
  | OtherError string

fun exn_str :: "pyexn \<Rightarrow> string" where
  "exn_str (TypeError m) = m"
| "exn_str (AttributeError m) = m"
| "exn_str (KeyError m) = m"
| "exn_str (ValueError m) = m"
| "exn_str (UnicodeEncodeError m) = m"
| "exn_str (ZeroDivisionError m) = m"
| "exn_str (OtherError m) = m"

text \<open>A statement that may raise, followed by the rest of the block.\<close>

definition and_then :: "pyexn + unit \<Rightarrow> pyexn + 'a \<Rightarrow> pyexn + 'a" where
  "and_then step rest = (case step of Inl e \<Rightarrow> Inl e | Inr u \<Rightarrow> rest)"

text \<open>Truthiness (\<^verbatim>\<open>if x:\<close>, \<^verbatim>\<open>not x\<close>): objects without \<^verbatim>\<open>__bool__\<close> are true.\<close>

fun py_truthy :: "pyval \<Rightarrow> bool" where
  "py_truthy PNone = False"
| "py_truthy (PBool b) = b"
| "py_truthy (PInt i) = (i \<noteq> 0)"
| "py_truthy (PStr s) = (s \<noteq> [])"
| "py_truthy (PList xs) = (xs \<noteq> [])"
| "py_truthy (PDict kvs) = (kvs \<noteq> [])"
| "py_truthy (PObj attrs) = True"
| "py_truthy POpaque = True"

text \<open>
  \<^verbatim>\<open>hasattr(x, name)\<close> and \<^verbatim>\<open>getattr(x, name, default)\<close>, for the attribute names the tools
  read: \<^verbatim>\<open>success\<close>, \<^verbatim>\<open>error\<close>, \<^verbatim>\<open>data\<close>, \<^verbatim>\<open>web\<close>, \<^verbatim>\<open>creditsUsed\<close>, \<^verbatim>\<open>url\<close>, \<^verbatim>\<open>title\<close>,
  \<^verbatim>\<open>description\<close> and \<^verbatim>\<open>markdown\<close>. Of the built-in types only \<^verbatim>\<open>str\<close> has one of them:
  the method \<^verbatim>\<open>str.title\<close>.
\<close>

fun py_hasattr :: "pyval \<Rightarrow> string \<Rightarrow> bool" where
  "py_hasattr (PObj attrs) name = (map_of attrs name \<noteq> None)"
| "py_hasattr (PStr s) name = (name = ''title'')"
| "py_hasattr v name = False"

fun py_getattr :: "pyval \<Rightarrow> string \<Rightarrow> pyval \<Rightarrow> pyval" where
  "py_getattr (PObj attrs) name d = (case map_of attrs name of Some v \<Rightarrow> v | None \<Rightarrow> d)"
| "py_getattr (PStr s) name d = (if name = ''title'' then POpaque else d)"
| "py_getattr v name d = d"

text \<open>The method call \<^verbatim>\<open>x.get(key, default)\<close>: only a dict has the method.\<close>

fun py_get :: "pyval \<Rightarrow> string \<Rightarrow> pyval \<Rightarrow> pyexn + pyval" where
  "py_get (PDict kvs) k d = Inr (case map_of kvs k of Some v \<Rightarrow> v | None \<Rightarrow> d)"
| "py_get v k d = Inl (AttributeError ''object has no attribute get'')"

fun py_len :: "pyval \<Rightarrow> pyexn + nat" where
  "py_len (PStr s) = Inr (length s)"
| "py_len (PList xs) = Inr (length xs)"
| "py_len (PDict kvs) = Inr (length kvs)"
| "py_len v = Inl (TypeError ''object has no len()'')"

text \<open>The slice \<^verbatim>\<open>xs[:n]\<close>: a negative bound counts from the end.\<close>

definition slice_to :: "'a list \<Rightarrow> int \<Rightarrow> 'a list" where
  "slice_to xs n = (if 0 \<le> n then take (nat n) xs else take (length xs - nat (- n)) xs)"

fun py_slice_to :: "pyval \<Rightarrow> int \<Rightarrow> pyexn + pyval" where
  "py_slice_to (PStr s) n = Inr (PStr (slice_to s n))"
| "py_slice_to (PList xs) n = Inr (PList (slice_to xs n))"
| "py_slice_to (PDict kvs) n = Inl (TypeError ''unhashable type: slice'')"
| "py_slice_to v n = Inl (TypeError ''object is not subscriptable'')"

text \<open>The items a \<^verbatim>\<open>for\<close> loop visits.\<close>

fun py_iter :: "pyval \<Rightarrow> pyexn + pyval list" where
  "py_iter (PList xs) = Inr xs"
| "py_iter (PStr s) = Inr (map (\<lambda>c. PStr [c]) s)"
| "py_iter (PDict kvs) = Inr (map (\<lambda>kv. PStr (fst kv)) kvs)"
| "py_iter v = Inl (TypeError ''object is not iterable'')"

subsection \<open>Formatting and printing\<close>

text \<open>
  Converting an \<^verbatim>\<open>int\<close> to decimal text, in an f-string, in \<^verbatim>\<open>str()\<close> or in
  \<^verbatim>\<open>json.dumps\<close>, raises \<^verbatim>\<open>ValueError\<close> when the number has more than 4300 digits
  (\<^verbatim>\<open>sys.int_info.default_max_str_digits\<close>). Lengths and counts of lists and strings are
  at most \<^verbatim>\<open>sys.maxsize\<close>, so formatting them never raises and is not modelled.
\<close>

definition max_str_digits :: nat where
  "max_str_digits = 4300"

definition int_formattable :: "int \<Rightarrow> bool" where
  "int_formattable n = (\<bar>n\<bar> < 10 ^ max_str_digits)"

text \<open>The largest length of a string or a list, \<^verbatim>\<open>sys.maxsize\<close> on a 64-bit build.\<close>

definition sys_maxsize :: nat where
  "sys_maxsize = 2 ^ 63 - 1"

definition digits_exceeded :: pyexn where
  "digits_exceeded = ValueError ''Exceeds the limit (4300 digits) for integer string conversion''"

definition format_int :: "int \<Rightarrow> pyexn + unit" where
  "format_int n = (if int_formattable n then Inr () else Inl digits_exceeded)"

text \<open>
  \<^verbatim>\<open>str(v)\<close> of a provider value raises in the same way when \<open>v\<close> holds such a number
  (an object is taken to print its attributes, as a pydantic model does); otherwise its
  text is \<open>str_of v\<close>, where \<open>str_of\<close> stands for Python's \<^verbatim>\<open>str()\<close>.
\<close>

fun formattable :: "pyval \<Rightarrow> bool" where
  "formattable PNone = True"
| "formattable (PBool b) = True"
| "formattable (PInt i) = int_formattable i"
| "formattable (PStr s) = True"
| "formattable (PList xs) = list_all formattable xs"
| "formattable (PDict kvs) = list_all (\<lambda>kv. formattable (snd kv)) kvs"
| "formattable (PObj attrs) = list_all (\<lambda>kv. formattable (snd kv)) attrs"
| "formattable POpaque = True"

definition format_value :: "pyval \<Rightarrow> pyexn + unit" where
  "format_value v = (if formattable v then Inr () else Inl digits_exceeded)"

text \<open>
  \<^verbatim>\<open>print\<close> encodes its text for \<^verbatim>\<open>sys.stdout\<close> and raises \<^verbatim>\<open>UnicodeEncodeError\<close> on a
  character the encoding does not have. The stream is taken to be open and its encoding to
  cover ASCII and the fixed text of the narration, as UTF-8 does. Which of the other
  characters it can encode is the \<open>console\<close>: under UTF-8 the characters it refuses are the
  lone surrogates.
\<close>

type_synonym console = "char \<Rightarrow> bool"

definition printable :: "console \<Rightarrow> string \<Rightarrow> bool" where
  "printable console text = list_all (\<lambda>c. if digit7 c then console c else True) text"

definition py_print :: "console \<Rightarrow> string \<Rightarrow> pyexn + unit" where
  "py_print console text =
     (if printable console text then Inr ()
      else Inl (UnicodeEncodeError ''codec cannot encode character''))"

text \<open>\<^verbatim>\<open>print(f"... {v} ...")\<close> for a provider value \<open>v\<close>: format, then print.\<close>

definition print_value :: "console \<Rightarrow> (pyval \<Rightarrow> string) \<Rightarrow> pyval \<Rightarrow> pyexn + unit" where
  "print_value console str_of v = and_then (format_value v) (py_print console (str_of v))"

subsection \<open>JSON\<close>

text \<open>
  \<^verbatim>\<open>json.dumps\<close> raises \<^verbatim>\<open>TypeError\<close> on a value that is not JSON data and \<^verbatim>\<open>ValueError\<close>
  on an integer of more than 4300 digits; strings of any characters are escaped. The JSON
  text it returns is represented by the value it encodes, which is what the consumer's
  \<^verbatim>\<open>json.loads\<close> gets back.
\<close>

fun json_serializable :: "pyval \<Rightarrow> bool" where
  "json_serializable PNone = True"
| "json_serializable (PBool b) = True"
| "json_serializable (PInt i) = True"
| "json_serializable (PStr s) = True"
| "json_serializable (PList xs) = list_all json_serializable xs"
| "json_serializable (PDict kvs) = list_all (\<lambda>kv. json_serializable (snd kv)) kvs"
| "json_serializable (PObj attrs) = False"
| "json_serializable POpaque = False"

definition json_dumps :: "pyval \<Rightarrow> pyexn + pyval" where
  "json_dumps v =
     (if \<not> json_serializable v then Inl (TypeError ''Object is not JSON serializable'')
      else if \<not> formattable v then Inl digits_exceeded
      else Inr v)"

text \<open>\<^verbatim>\<open>d.get(key)\<close> on the dict a tool returned.\<close>

fun envelope_get :: "pyval \<Rightarrow> string \<Rightarrow> pyval option" where
  "envelope_get (PDict kvs) k = map_of kvs k"
| "envelope_get v k = None"

section \<open>The tool state and \<^verbatim>\<open>firecrawl_search\<close>\<close>

text \<open>
  The module globals \<^verbatim>\<open>_tool_call_counter\<close> and \<^verbatim>\<open>_recent_queries\<close>, and, as ghost fields,
  the requests that have reached the provider (\<^verbatim>\<open>firecrawl.search\<close> with the query and the
  capped limit, \<^verbatim>\<open>firecrawl.scrape\<close> with the url), in order.
\<close>

record tool_state =
  tool_call_counter :: int
  recent_queries :: "string list"
  search_requests :: "(string \<times> int) list"
  scrape_requests :: "string list"

text \<open>The globals at module load, and after the reset at the start of \<^verbatim>\<open>generate_segments\<close>.\<close>

definition initial_state :: tool_state where
  "initial_state =
     \<lparr>tool_call_counter = 0, recent_queries = [], search_requests = [], scrape_requests = []\<rparr>"

definition max_identical_queries :: nat where
  "max_identical_queries = 3"

text \<open>
  Lines 127 to 134: count the call, append the query, drop the oldest entry once the list
  is longer than 10, count the exact matches of the query in what remains.
\<close>

definition record_query :: "tool_state \<Rightarrow> string \<Rightarrow> tool_state \<times> nat" where
  "record_query s query =
     (let appended = recent_queries s @ [query];
          window = (if length appended > 10 then tl appended else appended)
      in (s\<lparr>tool_call_counter := tool_call_counter s + 1, recent_queries := window\<rparr>,
          count_list window query))"

text \<open>
  The dicts the tool serialises. \<open>str_of\<close> stands for Python's \<^verbatim>\<open>str()\<close> inside the f-strings.
  The key \<^verbatim>\<open>execution_time_seconds\<close> (wall-clock time) is left out.
\<close>

definition loop_envelope :: "(pyval \<Rightarrow> string) \<Rightarrow> string \<Rightarrow> nat \<Rightarrow> pyval" where
  "loop_envelope str_of query identical_count =
     PDict [(''success'', PBool True), (''query'', PStr query), (''results_count'', PInt 0),
            (''results'', PList []), (''credits_used'', PInt 0),
            (''note'', PStr (''Query repeated '' @ str_of (PInt (int identical_count))
                             @ '' times. Try different approach.''))]"

definition search_failed_envelope :: "(pyval \<Rightarrow> string) \<Rightarrow> string \<Rightarrow> pyval \<Rightarrow> pyval" where
  "search_failed_envelope str_of query error_msg =
     PDict [(''success'', PBool True), (''query'', PStr query), (''results_count'', PInt 0),
            (''results'', PList []), (''credits_used'', PInt 0),
            (''note'', PStr (''Search failed: '' @ str_of error_msg @ ''. Try different query.''))]"

definition no_results_envelope :: "string \<Rightarrow> pyval \<Rightarrow> pyval" where
  "no_results_envelope query credits_used =
     PDict [(''success'', PBool True), (''query'', PStr query), (''results_count'', PInt 0),
            (''results'', PList []), (''credits_used'', credits_used),
            (''note'', PStr ''No results found. Try different keywords.'')]"

definition found_envelope :: "string \<Rightarrow> pyval list \<Rightarrow> pyval \<Rightarrow> pyval" where
  "found_envelope query simplified credits =
     PDict [(''success'', PBool True), (''query'', PStr query),
            (''results_count'', PInt (int (length simplified))),
            (''results'', PList simplified), (''credits_used'', credits)]"

definition no_data_envelope :: "string \<Rightarrow> pyval" where
  "no_data_envelope query =
     PDict [(''success'', PBool True), (''query'', PStr query), (''results_count'', PInt 0),
            (''results'', PList []), (''credits_used'', PInt 0),
            (''note'', PStr ''No data returned. Try different approach.'')]"

definition search_error_envelope :: "string \<Rightarrow> pyexn \<Rightarrow> pyval" where
  "search_error_envelope query e =
     PDict [(''success'', PBool True), (''query'', PStr query), (''results_count'', PInt 0),
            (''results'', PList []), (''credits_used'', PInt 0),
            (''note'', PStr (''Error: '' @ take 50 (exn_str e) @ ''. Try different approach.''))]"

text \<open>
  Lines 202 to 204: \<^verbatim>\<open>getattr(item, k, '') if hasattr(item, k) else item.get(k, '')\<close>.
\<close>

definition item_field :: "pyval \<Rightarrow> string \<Rightarrow> pyexn + pyval" where
  "item_field item k =
     (if py_hasattr item k then Inr (py_getattr item k (PStr [])) else py_get item k (PStr []))"

definition simplify_item :: "pyval \<Rightarrow> pyexn + pyval" where
  "simplify_item item =
     (case item_field item ''url'' of Inl e \<Rightarrow> Inl e | Inr url \<Rightarrow>
      case item_field item ''title'' of Inl e \<Rightarrow> Inl e | Inr title \<Rightarrow>
      case item_field item ''description'' of Inl e \<Rightarrow> Inl e | Inr description \<Rightarrow>
        Inr (PDict [(''url'', url), (''title'', title), (''description'', description)]))"

text \<open>The loop of lines 199 to 210 over the items, stopping at the first exception.\<close>

fun simplify_items :: "pyval list \<Rightarrow> pyexn + pyval list" where
  "simplify_items [] = Inr []"
| "simplify_items (item # items) =
     (case simplify_item item of Inl e \<Rightarrow> Inl e | Inr d \<Rightarrow>
      case simplify_items items of Inl e \<Rightarrow> Inl e | Inr ds \<Rightarrow> Inr (d # ds))"

text \<open>Line 185: \<^verbatim>\<open>not web_results or len(web_results) == 0\<close>.\<close>

definition no_web_results :: "pyval \<Rightarrow> pyexn + bool" where
  "no_web_results web_results =
     (if \<not> py_truthy web_results then Inr True
      else case py_len web_results of Inl e \<Rightarrow> Inl e | Inr n \<Rightarrow> Inr (n = 0))"

text \<open>
  Lines 148 to 153, between the loop guard and the \<^verbatim>\<open>try\<close>: the tool prints the call
  counter, the first 80 characters of the query and the limit. An exception here leaves the
  tool. The last line prints only the count of matches, which is at most 10.
\<close>

definition search_narration :: "console \<Rightarrow> tool_state \<Rightarrow> string \<Rightarrow> int \<Rightarrow> pyexn + unit" where
  "search_narration console s query limit =
     and_then (format_int (tool_call_counter s))
    (and_then (py_print console (take 80 query))
              (format_int limit))"

text \<open>
  The body of the \<^verbatim>\<open>try\<close> block (lines 156 to 240), from the outcome of the call
  \<^verbatim>\<open>firecrawl.search(query=query, limit=min(limit, 20))\<close>: \<open>Inl\<close> when the call raised.
  Each branch prints before it serialises: line 168 the provider's error, lines 188 and 215
  the provider's credits; the other lines print fixed text, durations and lengths.
\<close>

definition search_try ::
  "console \<Rightarrow> (pyval \<Rightarrow> string) \<Rightarrow> pyexn + pyval \<Rightarrow> string \<Rightarrow> int \<Rightarrow> pyexn + pyval" where
  "search_try console str_of outcome query limit =
     (case outcome of Inl e \<Rightarrow> Inl e | Inr result \<Rightarrow>
        if \<not> py_truthy (py_getattr result ''success'' (PBool True)) then
          let error_msg = py_getattr result ''error'' (PStr ''Unknown error'') in
          and_then (print_value console str_of error_msg)
                   (json_dumps (search_failed_envelope str_of query error_msg))
        else
          let data = py_getattr result ''data'' PNone in
          if py_truthy data then
            let web_results = py_getattr data ''web'' (PList []) in
            case no_web_results web_results of Inl e \<Rightarrow> Inl e
            | Inr True \<Rightarrow>
                let credits_used = py_getattr result ''creditsUsed'' (PInt 0) in
                and_then (print_value console str_of credits_used)
                         (json_dumps (no_results_envelope query credits_used))
            | Inr False \<Rightarrow>
               (case py_slice_to web_results limit of Inl e \<Rightarrow> Inl e | Inr sliced \<Rightarrow>
                case py_iter sliced of Inl e \<Rightarrow> Inl e | Inr items \<Rightarrow>
                case simplify_items items of Inl e \<Rightarrow> Inl e | Inr simplified \<Rightarrow>
                  let credits = py_getattr result ''creditsUsed'' (PInt 2) in
                  and_then (print_value console str_of credits)
                           (json_dumps (found_envelope query simplified credits)))
          else json_dumps (no_data_envelope query))"

text \<open>
  The whole \<^verbatim>\<open>try\<close> statement: \<^verbatim>\<open>except Exception as e\<close> (lines 241 to 254) prints
  \<^verbatim>\<open>str(e)[:100]\<close> and serialises the error envelope. An exception of the handler leaves
  the tool.
\<close>

definition search_call ::
  "console \<Rightarrow> (pyval \<Rightarrow> string) \<Rightarrow> pyexn + pyval \<Rightarrow> string \<Rightarrow> int \<Rightarrow> pyexn + pyval" where
  "search_call console str_of outcome query limit =
     (case search_try console str_of outcome query limit of
        Inr text \<Rightarrow> Inr text
      | Inl e \<Rightarrow> and_then (py_print console (take 100 (exn_str e)))
                          (json_dumps (search_error_envelope query e)))"

text \<open>
  \<^verbatim>\<open>firecrawl_search\<close>. The provider \<open>api\<close> answers a request from the requests it has
  received before, the query and the limit; its answer is \<open>Inl\<close> when the client raises.
  The result is \<open>Inl\<close> when the tool itself raises to its caller; the globals have been
  updated by then. In the guard's branch (lines 136 to 146) only fixed text and the count of
  matches are printed.
\<close>

definition firecrawl_search ::
  "console \<Rightarrow> (pyval \<Rightarrow> string) \<Rightarrow> ((string \<times> int) list \<Rightarrow> string \<Rightarrow> int \<Rightarrow> pyexn + pyval) \<Rightarrow>
   tool_state \<Rightarrow> string \<Rightarrow> int \<Rightarrow> (pyexn + pyval) \<times> tool_state" where
  "firecrawl_search console str_of api s query limit =
     (let (s1, identical_count) = record_query s query in
      if identical_count \<ge> max_identical_queries then
        (json_dumps (loop_envelope str_of query identical_count), s1)
      else
        case search_narration console s1 query limit of
          Inl e \<Rightarrow> (Inl e, s1)
        | Inr u \<Rightarrow>
            let outcome = api (search_requests s1) query (min limit 20);
                s2 = s1\<lparr>search_requests := search_requests s1 @ [(query, min limit 20)]\<rparr>
            in (search_call console str_of outcome query limit, s2))"

text \<open>The tool calls of one agent run, in the order the agent issues them.\<close>

fun run_searches ::
  "console \<Rightarrow> (pyval \<Rightarrow> string) \<Rightarrow> ((string \<times> int) list \<Rightarrow> string \<Rightarrow> int \<Rightarrow> pyexn + pyval) \<Rightarrow>
   tool_state \<Rightarrow> (string \<times> int) list \<Rightarrow> (pyexn + pyval) list \<times> tool_state" where
  "run_searches console str_of api s [] = ([], s)"
| "run_searches console str_of api s (call # calls) =
     (let (r, s1) = firecrawl_search console str_of api s (fst call) (snd call);
          (rs, s2) = run_searches console str_of api s1 calls
      in (r # rs, s2))"

text \<open>
  A concrete provider, a concrete \<^verbatim>\<open>str()\<close> and a concrete console for the worked
  examples: every search finds one page and is billed two credits. Text is a list of 8-bit
  characters here; the character \<open>0xED\<close> stands for a lone surrogate, which a UTF-8 stream
  refuses to encode.
\<close>

fun example_str_of :: "pyval \<Rightarrow> string" where
  "example_str_of (PStr s) = s"
| "example_str_of v = ''?''"

definition lone_surrogate :: char where
  "lone_surrogate = CHR 0xED"

definition utf8_console :: console where
  "utf8_console c = (c \<noteq> lone_surrogate)"

definition huge_limit :: int where
  "huge_limit = 10 ^ max_str_digits"

definition one_page_response :: pyval where
  "one_page_response =
     PObj [(''success'', PBool True),
           (''data'', PObj [(''web'', PList [PObj [(''url'', PStr ''https://example.org/a''),
                                                   (''title'', PStr ''A''),
                                                   (''description'', PStr ''about a'')]])]),
           (''creditsUsed'', PInt 2)]"

definition example_search_api :: "(string \<times> int) list \<Rightarrow> string \<Rightarrow> int \<Rightarrow> pyexn + pyval" where
  "example_search_api earlier query limit = Inr one_page_response"

definition one_page_envelope :: "string \<Rightarrow> pyval" where
  "one_page_envelope query =
     found_envelope query
       [PDict [(''url'', PStr ''https://example.org/a''), (''title'', PStr ''A''),
               (''description'', PStr ''about a'')]]
       (PInt 2)"

text \<open>
  The state of a run after ten searches: \<^verbatim>\<open>x\<close>, eight other queries, and \<^verbatim>\<open>x\<close> again.
\<close>

definition ten_queries :: "string list" where
  "ten_queries = [''x'', ''a'', ''b'', ''c'', ''d'', ''e'', ''f'', ''g'', ''h'', ''x'']"

definition after_ten_queries :: tool_state where
  "after_ten_queries =
     snd (run_searches utf8_console example_str_of example_search_api initial_state
            (map (\<lambda>q. (q, 10)) ten_queries))"

section \<open>\<^verbatim>\<open>firecrawl_scrape\<close>\<close>

fun is_dict :: "pyval \<Rightarrow> bool" where
  "is_dict (PDict kvs) = True"
| "is_dict v = False"

text \<open>
  Lines 295 and 296:
  \<^verbatim>\<open>data = getattr(result, 'data', {})\<close> and
  \<^verbatim>\<open>getattr(data, 'markdown', '') if hasattr(data, 'markdown') else data.get('markdown', '') if isinstance(data, dict) else ''\<close>.
\<close>

definition scrape_markdown :: "pyval \<Rightarrow> pyexn + pyval" where
  "scrape_markdown result =
     (let data = py_getattr result ''data'' (PDict []) in
      if py_hasattr data ''markdown'' then Inr (py_getattr data ''markdown'' (PStr []))
      else if is_dict data then py_get data ''markdown'' (PStr [])
      else Inr (PStr []))"

definition truncation_marker :: string where
  "truncation_marker = [CHR 0x0A, CHR 0x0A] @ ''[Content truncated for length...]''"

text \<open>\<^verbatim>\<open>x += text\<close> for a string \<^verbatim>\<open>text\<close>: a list is extended by the characters.\<close>

fun py_iadd_str :: "pyval \<Rightarrow> string \<Rightarrow> pyexn + pyval" where
  "py_iadd_str (PStr s) t = Inr (PStr (s @ t))"
| "py_iadd_str (PList xs) t = Inr (PList (xs @ map (\<lambda>c. PStr [c]) t))"
| "py_iadd_str v t = Inl (TypeError ''unsupported operand type(s) for +='')"

text \<open>
  Lines 298 to 304: \<^verbatim>\<open>truncated = markdown[:5000]\<close>, the marker appended when
  \<^verbatim>\<open>len(markdown) > 5000\<close>, and \<^verbatim>\<open>content_length = len(markdown)\<close>.
\<close>

definition truncate_markdown :: "pyval \<Rightarrow> pyexn + pyval \<times> nat" where
  "truncate_markdown markdown =
     (case py_slice_to markdown 5000 of Inl e \<Rightarrow> Inl e | Inr truncated \<Rightarrow>
      case py_len markdown of Inl e \<Rightarrow> Inl e | Inr content_length \<Rightarrow>
        if content_length > 5000 then
          (case py_iadd_str truncated truncation_marker of Inl e \<Rightarrow> Inl e
           | Inr marked \<Rightarrow> Inr (marked, content_length))
        else Inr (truncated, content_length))"

definition scraped_envelope :: "string \<Rightarrow> pyval \<Rightarrow> nat \<Rightarrow> pyval" where
  "scraped_envelope url truncated content_length =
     PDict [(''success'', PBool True), (''url'', PStr url), (''content'', truncated),
            (''full_length'', PInt (int content_length)), (''credits_used'', PInt 1)]"

definition scrape_failed_envelope :: "(pyval \<Rightarrow> string) \<Rightarrow> string \<Rightarrow> pyval \<Rightarrow> pyval" where
  "scrape_failed_envelope str_of url error50 =
     PDict [(''success'', PBool True), (''url'', PStr url), (''content'', PStr []),
            (''full_length'', PInt 0), (''credits_used'', PInt 0),
            (''note'', PStr (''Scrape failed: '' @ str_of error50 @ ''. Try different URL.''))]"

definition scrape_error_envelope :: "string \<Rightarrow> pyexn \<Rightarrow> pyval" where
  "scrape_error_envelope url e =
     PDict [(''success'', PBool True), (''url'', PStr url), (''content'', PStr []),
            (''full_length'', PInt 0), (''credits_used'', PInt 0),
            (''note'', PStr (''Error: '' @ take 50 (exn_str e) @ ''. Try different URL.''))]"

text \<open>
  Lines 277 to 280, before the \<^verbatim>\<open>try\<close>: the tool prints the call counter, the whole url
  and, when the url is longer than 100 characters, its first 100 characters. An exception
  here leaves the tool.
\<close>

definition scrape_narration :: "console \<Rightarrow> tool_state \<Rightarrow> string \<Rightarrow> pyexn + unit" where
  "scrape_narration console s url =
     and_then (format_int (tool_call_counter s))
    (and_then (py_print console url)
              (if length url > 100 then py_print console (take 100 url) else Inr ()))"

text \<open>
  The body of the \<^verbatim>\<open>try\<close> block (lines 283 to 334), from the outcome of
  \<^verbatim>\<open>firecrawl.scrape(url=url, formats=['markdown'])\<close>. The success branch prints lengths
  and fixed text. In the failure branch the message is sliced twice: \<^verbatim>\<open>error[:80]\<close> is
  printed (line 322) and \<^verbatim>\<open>error[:50]\<close> is formatted into the note (line 332).
\<close>

definition scrape_try ::
  "console \<Rightarrow> (pyval \<Rightarrow> string) \<Rightarrow> pyexn + pyval \<Rightarrow> string \<Rightarrow> pyexn + pyval" where
  "scrape_try console str_of outcome url =
     (case outcome of Inl e \<Rightarrow> Inl e | Inr result \<Rightarrow>
        if py_truthy (py_getattr result ''success'' (PBool True)) then
          (case scrape_markdown result of Inl e \<Rightarrow> Inl e | Inr markdown \<Rightarrow>
           case truncate_markdown markdown of Inl e \<Rightarrow> Inl e
           | Inr (truncated, content_length) \<Rightarrow>
               json_dumps (scraped_envelope url truncated content_length))
        else
          let error = py_getattr result ''error'' (PStr ''Scrape failed'') in
          case py_slice_to error 80 of Inl e \<Rightarrow> Inl e | Inr error80 \<Rightarrow>
          and_then (print_value console str_of error80)
         (case py_slice_to error 50 of Inl e \<Rightarrow> Inl e | Inr error50 \<Rightarrow>
          and_then (format_value error50)
                   (json_dumps (scrape_failed_envelope str_of url error50))))"

text \<open>
  The whole \<^verbatim>\<open>try\<close> statement with its handler (lines 335 to 349), which prints
  \<^verbatim>\<open>str(e)[:100]\<close> before it serialises the error envelope.
\<close>

definition scrape_call ::
  "console \<Rightarrow> (pyval \<Rightarrow> string) \<Rightarrow> pyexn + pyval \<Rightarrow> string \<Rightarrow> pyexn + pyval" where
  "scrape_call console str_of outcome url =
     (case scrape_try console str_of outcome url of
        Inr text \<Rightarrow> Inr text
      | Inl e \<Rightarrow> and_then (py_print console (take 100 (exn_str e)))
                          (json_dumps (scrape_error_envelope url e)))"

text \<open>
  \<^verbatim>\<open>firecrawl_scrape\<close>: the counter is advanced (line 274) before anything is printed.
\<close>

definition firecrawl_scrape ::
  "console \<Rightarrow> (pyval \<Rightarrow> string) \<Rightarrow> (string list \<Rightarrow> string \<Rightarrow> pyexn + pyval) \<Rightarrow>
   tool_state \<Rightarrow> string \<Rightarrow> (pyexn + pyval) \<times> tool_state" where
  "firecrawl_scrape console str_of api s url =
     (let s1 = s\<lparr>tool_call_counter := tool_call_counter s + 1\<rparr> in
      case scrape_narration console s1 url of
        Inl e \<Rightarrow> (Inl e, s1)
      | Inr u \<Rightarrow>
          let outcome = api (scrape_requests s1) url;
              s2 = s1\<lparr>scrape_requests := scrape_requests s1 @ [url]\<rparr>
          in (scrape_call console str_of outcome url, s2))"

section \<open>The credits a run attributes to its tool calls\<close>

text \<open>
  \<^verbatim>\<open>process_segment\<close> (lines 979 to 985, and the same loop in \<^verbatim>\<open>generate_segments\<close>)
  reads every tool message inside a \<^verbatim>\<open>try\<close> with a bare \<^verbatim>\<open>except\<close>:
  \<^verbatim>\<open>credits = tool_result.get('credits_used', 0)\<close> and \<^verbatim>\<open>segment_credits += credits\<close>.
  An exception (the content is no dict, the credits are no number) leaves the sum as it
  was; \<^verbatim>\<open>bool\<close> is a subclass of \<^verbatim>\<open>int\<close>.
\<close>

fun add_credits :: "int \<Rightarrow> pyval \<Rightarrow> int" where
  "add_credits so_far (PInt i) = so_far + i"
| "add_credits so_far (PBool b) = so_far + (if b then 1 else 0)"
| "add_credits so_far v = so_far"

definition count_tool_message :: "int \<Rightarrow> pyval \<Rightarrow> int" where
  "count_tool_message segment_credits tool_result =
     (case py_get tool_result ''credits_used'' (PInt 0) of
        Inl e \<Rightarrow> segment_credits
      | Inr credits \<Rightarrow> add_credits segment_credits credits)"

definition segment_credits :: "pyval list \<Rightarrow> int" where
  "segment_credits tool_results = foldl count_tool_message 0 tool_results"

text \<open>The texts of the tool calls that returned; a call that raised leaves no message.\<close>

fun tool_messages :: "(pyexn + pyval) list \<Rightarrow> pyval list" where
  "tool_messages [] = []"
| "tool_messages (Inr text # rs) = text # tool_messages rs"
| "tool_messages (Inl e # rs) = tool_messages rs"

section \<open>When the handler can print the provider's exception\<close>

text \<open>
  The handlers print \<^verbatim>\<open>str(e)[:100]\<close> (lines 243 and 337). When the provider call raised,
  \<open>e\<close> is the provider's exception and its message is the provider's text.
\<close>

definition printable_exception :: "console \<Rightarrow> pyexn + pyval \<Rightarrow> bool" where
  "printable_exception console outcome =
     (case outcome of Inl e \<Rightarrow> printable console (take 100 (exn_str e)) | Inr result \<Rightarrow> True)"

section \<open>Predicates for the envelopes of failed calls\<close>

text \<open>
  A search envelope with no results, a non-empty note and the given \<open>credits_used\<close>; a
  scrape envelope with empty content, a non-empty note and \<open>credits_used = 0\<close>.
\<close>

definition nonempty_str :: "pyval option \<Rightarrow> bool" where
  "nonempty_str v = (case v of Some (PStr t) \<Rightarrow> t \<noteq> [] | _ \<Rightarrow> False)"

definition empty_search_envelope :: "pyval \<Rightarrow> pyval \<Rightarrow> bool" where
  "empty_search_envelope env credits =
     (envelope_get env ''success'' = Some (PBool True) \<and>
      envelope_get env ''credits_used'' = Some credits \<and>
      nonempty_str (envelope_get env ''note'') \<and>
      envelope_get env ''results'' = Some (PList []) \<and>
      envelope_get env ''results_count'' = Some (PInt 0))"

definition empty_scrape_envelope :: "pyval \<Rightarrow> bool" where
  "empty_scrape_envelope env =
     (envelope_get env ''success'' = Some (PBool True) \<and>
      envelope_get env ''credits_used'' = Some (PInt 0) \<and>
      nonempty_str (envelope_get env ''note'') \<and>
      envelope_get env ''content'' = Some (PStr []) \<and>
      envelope_get env ''full_length'' = Some (PInt 0))"

text \<open>Concrete provider responses for the worked examples.\<close>

definition example_scrape_api :: "string list \<Rightarrow> string \<Rightarrow> pyexn + pyval" where
  "example_scrape_api earlier url =
     Inr (PObj [(''success'', PBool True),
                (''data'', PObj [(''markdown'', PStr (replicate 5001 (CHR ''m'')))]),
                (''creditsUsed'', PInt 7)])"

definition short_page_response :: pyval where
  "short_page_response =
     PObj [(''success'', PBool True), (''data'', PDict [(''markdown'', PStr ''# Title'')]),
           (''creditsUsed'', PInt 7)]"

definition short_page_api :: "string list \<Rightarrow> string \<Rightarrow> pyexn + pyval" where
  "short_page_api earlier url = Inr short_page_response"

definition empty_search_response :: pyval where
  "empty_search_response =
     PObj [(''success'', PBool True), (''data'', PObj [(''web'', PList [])]),
           (''creditsUsed'', PInt 2)]"

definition null_markdown_response :: pyval where
  "null_markdown_response =
     PObj [(''success'', PBool True), (''data'', PObj [(''markdown'', PNone)])]"

definition failed_response :: pyval where
  "failed_response = PObj [(''success'', PBool False), (''error'', PStr ''rate limited'')]"

definition empty_search_api :: "(string \<times> int) list \<Rightarrow> string \<Rightarrow> int \<Rightarrow> pyexn + pyval" where
  "empty_search_api earlier query limit = Inr empty_search_response"

text \<open>A scrape response that reports success and carries no data.\<close>

definition no_data_response :: pyval where
  "no_data_response = PObj [(''success'', PBool True), (''creditsUsed'', PInt 1)]"

definition no_data_api :: "string list \<Rightarrow> string \<Rightarrow> pyexn + pyval" where
  "no_data_api earlier url = Inr no_data_response"

text \<open>A provider whose client raises with a lone surrogate in the message.\<close>

definition raising_search_api :: "(string \<times> int) list \<Rightarrow> string \<Rightarrow> int \<Rightarrow> pyexn + pyval" where
  "raising_search_api earlier query limit = Inl (OtherError (''bad response '' @ [lone_surrogate]))"

definition null_markdown_api :: "string list \<Rightarrow> string \<Rightarrow> pyexn + pyval" where
  "null_markdown_api earlier url = Inr null_markdown_response"

text \<open>
  A scrape call counts as successful when the provider reported success and the \<^verbatim>\<open>try\<close>
  block ran to its \<^verbatim>\<open>return\<close>.
\<close>

definition scrape_succeeded ::
  "console \<Rightarrow> (pyval \<Rightarrow> string) \<Rightarrow> pyexn + pyval \<Rightarrow> string \<Rightarrow> bool" where
  "scrape_succeeded console str_of outcome url =
     (case outcome of Inl e \<Rightarrow> False
      | Inr result \<Rightarrow>
          py_truthy (py_getattr result ''success'' (PBool True)) \<and>
          (case scrape_try console str_of outcome url of Inl e \<Rightarrow> False | Inr env \<Rightarrow> True))"

section \<open>\<^verbatim>\<open>CreditTracker\<close> (\<^verbatim>\<open>firecrawl_pipeline.py\<close>)\<close>

text \<open>
  One entry of \<^verbatim>\<open>self.operations\<close>. The keys \<^verbatim>\<open>duration_seconds\<close> (a float) and
  \<^verbatim>\<open>timestamp\<close> (the clock) are left out; \<^verbatim>\<open>metadata\<close> is stored only when it is truthy.
\<close>

record operation_data =
  operation :: string
  credits :: int
  input_tokens :: int
  output_tokens :: int
  total_tokens :: int
  metadata :: "pyval option"

record CreditTracker =
  operations :: "operation_data list"
  total_credits :: int
  total_input_tokens :: int
  total_output_tokens :: int

text \<open>\<^verbatim>\<open>__init__\<close>.\<close>

definition new_tracker :: CreditTracker where
  "new_tracker =
     \<lparr>operations = [], total_credits = 0, total_input_tokens = 0, total_output_tokens = 0\<rparr>"

definition add_operation ::
  "CreditTracker \<Rightarrow> string \<Rightarrow> int \<Rightarrow> int \<Rightarrow> int \<Rightarrow> pyval \<Rightarrow> CreditTracker" where
  "add_operation self operation_name credits_spent tokens_in tokens_out meta =
     (let operation_data =
            \<lparr>operation = operation_name, credits = credits_spent, input_tokens = tokens_in,
             output_tokens = tokens_out, total_tokens = tokens_in + tokens_out,
             metadata = (if py_truthy meta then Some meta else None)\<rparr>
      in self\<lparr>operations := operations self @ [operation_data],
              total_credits := total_credits self + credits_spent,
              total_input_tokens := total_input_tokens self + tokens_in,
              total_output_tokens := total_output_tokens self + tokens_out\<rparr>)"

text \<open>
  Modelled from the spec: \<^verbatim>\<open>CreditTracker\<close> has no \<^verbatim>\<open>merge\<close> method and the source never
  combines two trackers. The spec's words are "merge(other) appends another ledger's
  records in order" and "merge = concatenate records, sum totals".
\<close>

definition merge_ledgers :: "CreditTracker \<Rightarrow> CreditTracker \<Rightarrow> CreditTracker" where
  "merge_ledgers self other =
     \<lparr>operations = operations self @ operations other,
      total_credits = total_credits self + total_credits other,
      total_input_tokens = total_input_tokens self + total_input_tokens other,
      total_output_tokens = total_output_tokens self + total_output_tokens other\<rparr>"

text \<open>
  The ledgers that calls can produce: a fresh one, one more \<^verbatim>\<open>add_operation\<close> on a
  ledger, or the merge of two.
\<close>

datatype ledger_history =
    Fresh
  | Recorded ledger_history string int int int pyval
  | Merged ledger_history ledger_history

fun ledger_of :: "ledger_history \<Rightarrow> CreditTracker" where
  "ledger_of Fresh = new_tracker"
| "ledger_of (Recorded h operation_name credits_spent tokens_in tokens_out meta) =
     add_operation (ledger_of h) operation_name credits_spent tokens_in tokens_out meta"
| "ledger_of (Merged h1 h2) = merge_ledgers (ledger_of h1) (ledger_of h2)"

section \<open>\<^verbatim>\<open>run_complete_pipeline\<close> of \<^verbatim>\<open>firecrawl_pipeline.py\<close>\<close>

text \<open>
  A segment as the generation schema \<^verbatim>\<open>UserSegment\<close> gives it, with the three keys the
  pipelines read. The priority stays a string: the code tests it with
  \<^verbatim>\<open>in ['primary', 'secondary']\<close>.
\<close>

record segment =
  segment_name :: string
  description :: string
  priority_level :: string

text \<open>
  What \<^verbatim>\<open>app.agent\<close> returns: \<^verbatim>\<open>credits_used\<close>, which may be \<^verbatim>\<open>None\<close>, and \<^verbatim>\<open>data\<close>. For
  the generation call the data is the list under the key \<^verbatim>\<open>segments\<close>, if there is one;
  for a sizing call it is the \<^verbatim>\<open>MarketSizingResult\<close>, if there is one.
\<close>

record 'd agent_response =
  credits_used :: "int option"
  data :: "'d option"

record market_data =
  struggle_aware_count :: int
  recommended_scenario :: string

text \<open>
  An entry of \<^verbatim>\<open>market_sizing_results\<close>: the dict of lines 524 to 531 with the segment,
  the market data and the credits, or the dict of lines 540 to 544 with the segment,
  \<^verbatim>\<open>"market_sizing": None\<close> and \<^verbatim>\<open>"error": str(e)\<close>.
\<close>

datatype sizing_entry =
    Sized segment market_data "int option"
  | Sizing_error segment string

fun entry_segment :: "sizing_entry \<Rightarrow> segment" where
  "entry_segment (Sized seg market c) = seg"
| "entry_segment (Sizing_error seg msg) = seg"

text \<open>\<^verbatim>\<open>x.credits_used or 0\<close>.\<close>

definition credits_or_zero :: "int option \<Rightarrow> int" where
  "credits_or_zero c = (case c of None \<Rightarrow> 0 | Some n \<Rightarrow> n)"

definition high_priority :: "segment \<Rightarrow> bool" where
  "high_priority seg = (priority_level seg \<in> set [''primary'', ''secondary''])"

text \<open>
  One round of the loop of lines 472 to 544. The state is the tracker, the entries so far
  and, as a ghost, the segments for which the sizing agent has been called. When the call
  raises, the handler appends the error entry. When it returns, the operation is recorded
  first; reading \<^verbatim>\<open>market_data['population']\<close> for the console then raises if there is no
  data, and the handler appends the error entry after the tracker has been written.
\<close>

definition size_one ::
  "(segment list \<Rightarrow> segment \<Rightarrow> pyexn + market_data agent_response) \<Rightarrow>
   CreditTracker \<times> sizing_entry list \<times> segment list \<Rightarrow> segment \<Rightarrow>
   CreditTracker \<times> sizing_entry list \<times> segment list" where
  "size_one sizing_agent st seg =
     (case st of (tracker, market_sizing_results, asked) \<Rightarrow>
        case sizing_agent asked seg of
          Inl e \<Rightarrow>
            (tracker, market_sizing_results @ [Sizing_error seg (exn_str e)], asked @ [seg])
        | Inr sizing_result \<Rightarrow>
            let tracker1 = add_operation tracker (''Market Sizing: '' @ segment_name seg)
                             (credits_or_zero (credits_used sizing_result)) 0 0
                             (PDict [(''model'', PStr ''spark-1-mini''),
                                     (''segment'', PStr (segment_name seg)),
                                     (''priority'', PStr (priority_level seg))])
            in case data sizing_result of
                 None \<Rightarrow>
                   (tracker1,
                    market_sizing_results @
                      [Sizing_error seg ''NoneType object is not subscriptable''],
                    asked @ [seg])
               | Some market \<Rightarrow>
                   (tracker1,
                    market_sizing_results @ [Sized seg market (credits_used sizing_result)],
                    asked @ [seg]))"

text \<open>
  The returned \<^verbatim>\<open>output_data\<close>: the credit summary is the tracker itself, the run
  metadata (idea, location, times) is left out.
\<close>

record output_data =
  credit_summary :: CreditTracker
  segments_generated :: "segment list"
  market_sizing_results :: "sizing_entry list"

text \<open>
  The pipeline, from the outcome of the generation call. The result is \<open>Inr None\<close> for
  \<^verbatim>\<open>return None\<close> (line 452) and \<open>Inl\<close> for an exception that leaves the function; the
  second component lists the segments the sizing agent was called for. Line 560 divides by
  \<^verbatim>\<open>len(tracker.operations[1:])\<close> while printing the timing. Writing the JSON file is left
  out.
\<close>

definition run_complete_pipeline ::
  "pyexn + (segment list) agent_response \<Rightarrow>
   (segment list \<Rightarrow> segment \<Rightarrow> pyexn + market_data agent_response) \<Rightarrow> bool \<Rightarrow>
   (pyexn + output_data option) \<times> segment list" where
  "run_complete_pipeline generation sizing_agent size_all_segments =
     (case generation of
        Inl e \<Rightarrow> (Inr None, [])
      | Inr segment_result \<Rightarrow>
          let tracker = add_operation new_tracker ''Segment Generation''
                          (credits_or_zero (credits_used segment_result)) 0 0
                          (PDict [(''model'', PStr ''spark-1-mini''),
                                  (''segments_generated'',
                                   PInt (int (length (case data segment_result of
                                                        None \<Rightarrow> [] | Some segs \<Rightarrow> segs)))),
                                  (''note'', PStr ''Token counts not available from Firecrawl API'')])
          in case data segment_result of
               None \<Rightarrow> (Inr None, [])
             | Some segments \<Rightarrow>
                 let segments_to_process =
                       (if size_all_segments then segments else filter high_priority segments);
                     (tracker2, entries, asked) =
                       foldl (size_one sizing_agent) (tracker, [], []) segments_to_process
                 in if length (tl (operations tracker2)) = 0 then
                      (Inl (ZeroDivisionError ''division by zero''), asked)
                    else
                      (Inr (Some \<lparr>credit_summary = tracker2, segments_generated = segments,
                                  market_sizing_results = entries\<rparr>),
                       asked))"

text \<open>
  A generation result of ten segments, one primary and two secondary, and a sizing agent
  whose every call fails.
\<close>

definition ten_segments :: "segment list" where
  "ten_segments =
     [\<lparr>segment_name = ''Busy parents'', description = ''p'', priority_level = ''primary''\<rparr>,
      \<lparr>segment_name = ''Shift workers'', description = ''s1'', priority_level = ''secondary''\<rparr>,
      \<lparr>segment_name = ''Trainers'', description = ''a1'', priority_level = ''alternative''\<rparr>,
      \<lparr>segment_name = ''Students'', description = ''s2'', priority_level = ''secondary''\<rparr>,
      \<lparr>segment_name = ''Retirees'', description = ''a2'', priority_level = ''alternative''\<rparr>,
      \<lparr>segment_name = ''Travellers'', description = ''a3'', priority_level = ''alternative''\<rparr>,
      \<lparr>segment_name = ''Gym owners'', description = ''a4'', priority_level = ''alternative''\<rparr>,
      \<lparr>segment_name = ''Coaches'', description = ''a5'', priority_level = ''alternative''\<rparr>,
      \<lparr>segment_name = ''Athletes'', description = ''a6'', priority_level = ''alternative''\<rparr>,
      \<lparr>segment_name = ''Teams'', description = ''a7'', priority_level = ''alternative''\<rparr>]"

definition three_selected :: "segment list" where
  "three_selected =
     [\<lparr>segment_name = ''Busy parents'', description = ''p'', priority_level = ''primary''\<rparr>,
      \<lparr>segment_name = ''Shift workers'', description = ''s1'', priority_level = ''secondary''\<rparr>,
      \<lparr>segment_name = ''Students'', description = ''s2'', priority_level = ''secondary''\<rparr>]"

definition ten_generated :: "(segment list) agent_response" where
  "ten_generated = \<lparr>credits_used = Some 5, data = Some ten_segments\<rparr>"

definition failing_sizing_agent :: "segment list \<Rightarrow> segment \<Rightarrow> pyexn + market_data agent_response" where
  "failing_sizing_agent asked seg = Inl (OtherError ''503 Service Unavailable'')"

definition working_sizing_agent :: "segment list \<Rightarrow> segment \<Rightarrow> pyexn + market_data agent_response" where
  "working_sizing_agent asked seg =
     Inr \<lparr>credits_used = Some 4,
          data = Some \<lparr>struggle_aware_count = 1000, recommended_scenario = ''Mid''\<rparr>\<rparr>"

section \<open>\<^verbatim>\<open>size_market_for_segments\<close> and the pipeline of \<^verbatim>\<open>langchain_firecrawl_agent.py\<close>\<close>

text \<open>
  What \<^verbatim>\<open>process_segment\<close> sums up from the transcript of one agent run (lines 942 to
  1011): credits, searches, scrapes, input and output tokens.
\<close>

record segment_usage =
  usage_credits :: int
  usage_searches :: int
  usage_scrapes :: int
  usage_input_tokens :: int
  usage_output_tokens :: int

text \<open>
  The dict a worker returns (lines 1072 to 1087): the segment's name, its priority in
  upper case and the usage figures; the raw text, the parsed data and the times are left
  out.
\<close>

record sizing_result =
  result_segment_name :: string
  priority :: string
  usage :: segment_usage

definition ascii_upper :: "char \<Rightarrow> char" where
  "ascii_upper c =
     (let n = (of_char c :: nat) in if 97 \<le> n \<and> n \<le> 122 then char_of (n - 32) else c)"

text \<open>
  \<^verbatim>\<open>process_segment\<close>: \<open>agent_run\<close> is the agent's run for the segment with everything read
  from its transcript, \<open>Inl\<close> when anything in the worker raises.
\<close>

definition process_segment ::
  "(segment \<Rightarrow> pyexn + segment_usage) \<Rightarrow> segment \<Rightarrow> pyexn + sizing_result" where
  "process_segment agent_run seg =
     (case agent_run seg of
        Inl e \<Rightarrow> Inl e
      | Inr u \<Rightarrow>
          Inr \<lparr>result_segment_name = segment_name seg,
               priority = map ascii_upper (priority_level seg), usage = u\<rparr>)"

text \<open>
  The loop over \<^verbatim>\<open>as_completed(futures)\<close> (lines 1093 to 1099): the futures are visited in
  the order in which the workers finish; a result is appended, an exception is printed and
  nothing is appended.
\<close>

fun collect_results :: "(pyexn + sizing_result) list \<Rightarrow> nat list \<Rightarrow> sizing_result list" where
  "collect_results futures [] = []"
| "collect_results futures (i # completion_order) =
     (if i < length futures then
        (case futures ! i of
           Inr result \<Rightarrow> result # collect_results futures completion_order
         | Inl e \<Rightarrow> collect_results futures completion_order)
      else collect_results futures completion_order)"

record sizing_response =
  results :: "sizing_result list"
  total_phase2_credits :: int
  total_phase2_searches :: int
  total_phase2_scrapes :: int
  total_phase2_input_tokens :: int
  total_phase2_output_tokens :: int

text \<open>
  \<^verbatim>\<open>size_market_for_segments\<close>, for a completion order of the workers. The second
  component is \<^verbatim>\<open>top_segments\<close>, the segments for which a worker was started.
\<close>

definition size_market_for_segments ::
  "(segment \<Rightarrow> pyexn + segment_usage) \<Rightarrow> nat list \<Rightarrow> segment list \<Rightarrow>
   sizing_response \<times> segment list" where
  "size_market_for_segments agent_run completion_order segments =
     (let top_segments = take 3 (filter high_priority segments);
          futures = map (process_segment agent_run) top_segments;
          collected = collect_results futures completion_order
      in (\<lparr>results = collected,
           total_phase2_credits = sum_list (map (\<lambda>r. usage_credits (usage r)) collected),
           total_phase2_searches = sum_list (map (\<lambda>r. usage_searches (usage r)) collected),
           total_phase2_scrapes = sum_list (map (\<lambda>r. usage_scrapes (usage r)) collected),
           total_phase2_input_tokens =
             sum_list (map (\<lambda>r. usage_input_tokens (usage r)) collected),
           total_phase2_output_tokens =
             sum_list (map (\<lambda>r. usage_output_tokens (usage r)) collected)\<rparr>,
          top_segments))"

text \<open>Lines 1177 to 1183: the segments that are sized, whatever was generated.\<close>

definition mock_segments :: "segment list" where
  "mock_segments =
     [\<lparr>segment_name = ''Segment 1'', description = ''Primary segment'',
       priority_level = ''primary''\<rparr>,
      \<lparr>segment_name = ''Segment 2'', description = ''Secondary 1'',
       priority_level = ''secondary''\<rparr>,
      \<lparr>segment_name = ''Segment 3'', description = ''Secondary 2'',
       priority_level = ''secondary''\<rparr>]"

record 'g complete_results =
  phase1_segments :: 'g
  phase2_market_sizing :: "sizing_result list"

text \<open>
  \<^verbatim>\<open>run_complete_pipeline\<close> of the agent variant, from the outcome of
  \<^verbatim>\<open>generate_segments\<close>, whose exceptions are not caught. The second component lists the
  segments for which a sizing worker was started.
\<close>

definition run_complete_pipeline_langchain ::
  "pyexn + 'g \<Rightarrow> (segment \<Rightarrow> pyexn + segment_usage) \<Rightarrow> nat list \<Rightarrow>
   (pyexn + 'g complete_results) \<times> segment list" where
  "run_complete_pipeline_langchain generation agent_run completion_order =
     (case generation of
        Inl e \<Rightarrow> (Inl e, [])
      | Inr segment_result \<Rightarrow>
          let (sizing_response, sized) =
                size_market_for_segments agent_run completion_order mock_segments
          in (Inr \<lparr>phase1_segments = segment_result,
                   phase2_market_sizing = results sizing_response\<rparr>,
              sized))"

text \<open>
  Tool calls of the parallel workers. Each worker's agent calls the two tools, which read
  and write the module globals and take no worker identity. A schedule lists the tool
  calls of all workers that do not overlap in time, each tagged with the worker that
  issues it; they run through the one shared state in the order of the schedule.
\<close>

datatype tool_call = Search string int | Scrape string

fun run_tool ::
  "console \<Rightarrow> (pyval \<Rightarrow> string) \<Rightarrow> ((string \<times> int) list \<Rightarrow> string \<Rightarrow> int \<Rightarrow> pyexn + pyval) \<Rightarrow>
   (string list \<Rightarrow> string \<Rightarrow> pyexn + pyval) \<Rightarrow> tool_state \<Rightarrow> tool_call \<Rightarrow>
   (pyexn + pyval) \<times> tool_state" where
  "run_tool console str_of search_api scrape_api s (Search query limit) =
     firecrawl_search console str_of search_api s query limit"
| "run_tool console str_of search_api scrape_api s (Scrape url) =
     firecrawl_scrape console str_of scrape_api s url"

fun run_schedule ::
  "console \<Rightarrow> (pyval \<Rightarrow> string) \<Rightarrow> ((string \<times> int) list \<Rightarrow> string \<Rightarrow> int \<Rightarrow> pyexn + pyval) \<Rightarrow>
   (string list \<Rightarrow> string \<Rightarrow> pyexn + pyval) \<Rightarrow> tool_state \<Rightarrow> (nat \<times> tool_call) list \<Rightarrow>
   (pyexn + pyval) list \<times> tool_state" where
  "run_schedule console str_of search_api scrape_api s [] = ([], s)"
| "run_schedule console str_of search_api scrape_api s (call # calls) =
     (let (r, s1) = run_tool console str_of search_api scrape_api s (snd call);
          (rs, s2) = run_schedule console str_of search_api scrape_api s1 calls
      in (r # rs, s2))"

text \<open>The queries of the searches of a schedule, in order, whichever worker issued them.\<close>

fun search_queries :: "(nat \<times> tool_call) list \<Rightarrow> string list" where
  "search_queries [] = []"
| "search_queries ((w, Search query limit) # calls) = query # search_queries calls"
| "search_queries ((w, Scrape url) # calls) = search_queries calls"

text \<open>The calls of one worker, and the results that belong to them.\<close>

definition calls_of :: "nat \<Rightarrow> (nat \<times> tool_call) list \<Rightarrow> (nat \<times> tool_call) list" where
  "calls_of w schedule = filter (\<lambda>c. fst c = w) schedule"

definition results_of :: "nat \<Rightarrow> (nat \<times> tool_call) list \<Rightarrow> 'r list \<Rightarrow> 'r list" where
  "results_of w schedule rs = map snd (filter (\<lambda>cr. fst (fst cr) = w) (zip schedule rs))"

text \<open>The last \<open>n\<close> entries of a list.\<close>

definition last_n :: "nat \<Rightarrow> 'a list \<Rightarrow> 'a list" where
  "last_n n xs = drop (length xs - n) xs"

text \<open>Worked examples: a worker that fails for the second segment, and a schedule.\<close>

definition some_usage :: segment_usage where
  "some_usage =
     \<lparr>usage_credits = 5, usage_searches = 2, usage_scrapes = 1, usage_input_tokens = 900,
      usage_output_tokens = 300\<rparr>"

definition second_worker_fails :: "segment \<Rightarrow> pyexn + segment_usage" where
  "second_worker_fails seg =
     (if segment_name seg = ''Segment 2'' then Inl (OtherError ''agent run failed'')
      else Inr some_usage)"

definition second_sizing_fails :: "segment list \<Rightarrow> segment \<Rightarrow> pyexn + market_data agent_response" where
  "second_sizing_fails asked seg =
     (if segment_name seg = ''Segment 2'' then Inl (OtherError ''agent run failed'')
      else Inr \<lparr>credits_used = Some 4,
                data = Some \<lparr>struggle_aware_count = 1000, recommended_scenario = ''Mid''\<rparr>\<rparr>)"

definition first_worker_calls :: "(nat \<times> tool_call) list" where
  "first_worker_calls =
     [(1, Search ''x'' 10), (1, Scrape ''https://example.org/a''), (1, Search ''x'' 10)]"

definition two_worker_schedule :: "(nat \<times> tool_call) list" where
  "two_worker_schedule = first_worker_calls @ [(2, Search ''x'' 10)]"

section \<open>Facts about formatting and printing\<close>

lemma and_then_Inr: "and_then (Inr u) rest = rest"
  by (simp add: and_then_def)

lemma and_then_Inl: "and_then (Inl e) rest = Inl e"
  by (simp add: and_then_def)

lemma and_then_eq_Inr:
  "and_then step rest = Inr v \<longleftrightarrow> (\<exists>u. step = Inr u) \<and> rest = Inr v"
  by (cases step) (simp_all add: and_then_def)

lemma int_formattable_small: "\<bar>n\<bar> < 1000000 \<Longrightarrow> int_formattable n"
proof -
  assume small: "\<bar>n\<bar> < 1000000"
  have "(6::nat) \<le> max_str_digits" by (simp add: max_str_digits_def)
  then have "(10::int) ^ 6 \<le> 10 ^ max_str_digits" by (intro power_increasing) simp_all
  moreover have "(1000000::int) = 10 ^ 6" by simp
  ultimately show ?thesis using small unfolding int_formattable_def by linarith
qed

lemma length_formattable: "n \<le> sys_maxsize \<Longrightarrow> int_formattable (int n)"
proof -
  assume "n \<le> sys_maxsize"
  then have a: "int n < (10::int) ^ 19" by (simp add: sys_maxsize_def)
  have "(19::nat) \<le> max_str_digits" by (simp add: max_str_digits_def)
  then have b: "(10::int) ^ 19 \<le> 10 ^ max_str_digits" by (intro power_increasing) simp_all
  have "int n < 10 ^ max_str_digits" using a b by (rule less_le_trans)
  then show ?thesis unfolding int_formattable_def by simp
qed

lemma huge_limit_unformattable: "\<not> int_formattable huge_limit"
  unfolding int_formattable_def huge_limit_def by simp

lemma int_formattable_length_le:
  "int_formattable (int n) \<Longrightarrow> m \<le> n \<Longrightarrow> int_formattable (int m)"
  unfolding int_formattable_def by simp

lemma format_int_ok: "int_formattable n \<Longrightarrow> format_int n = Inr ()"
  by (simp add: format_int_def)

lemma py_print_ok: "printable console text \<Longrightarrow> py_print console text = Inr ()"
  by (simp add: py_print_def)

lemma printable_take: "printable console text \<Longrightarrow> printable console (take n text)"
  unfolding printable_def list_all_iff by (meson in_set_takeD)

lemma printable_append:
  "printable console (xs @ ys) \<longleftrightarrow> printable console xs \<and> printable console ys"
  by (simp add: printable_def)

text \<open>Text without a character above 127 is printed by every console.\<close>

lemma ascii_printable: "list_all (\<lambda>c. \<not> digit7 c) text \<Longrightarrow> printable console text"
  unfolding printable_def list_all_iff by simp

lemma digits_exceeded_ascii: "list_all (\<lambda>c. \<not> digit7 c) (exn_str digits_exceeded)"
  by (simp add: digits_exceeded_def)

lemma format_value_error:
  "format_value v = Inl e \<Longrightarrow> list_all (\<lambda>c. \<not> digit7 c) (exn_str e)"
  by (auto simp: format_value_def digits_exceeded_def split: if_splits)

lemma py_print_error:
  "py_print console text = Inl e \<Longrightarrow> list_all (\<lambda>c. \<not> digit7 c) (exn_str e)"
  by (auto simp: py_print_def split: if_splits)

lemma print_value_error:
  "print_value console str_of v = Inl e \<Longrightarrow> list_all (\<lambda>c. \<not> digit7 c) (exn_str e)"
  unfolding print_value_def and_then_def
  by (auto split: sum.splits dest: format_value_error py_print_error)

lemma print_value_ok:
  "formattable v \<Longrightarrow> printable console (str_of v) \<Longrightarrow> print_value console str_of v = Inr ()"
  by (simp add: print_value_def format_value_def py_print_def and_then_def)

lemma json_dumps_error:
  "json_dumps v = Inl e \<Longrightarrow> list_all (\<lambda>c. \<not> digit7 c) (exn_str e)"
  by (auto simp: json_dumps_def digits_exceeded_def split: if_splits)

lemma json_dumps_Inr: "json_dumps v = Inr w \<Longrightarrow> w = v"
  by (simp add: json_dumps_def split: if_splits)

lemma json_dumps_ok: "json_serializable v \<Longrightarrow> formattable v \<Longrightarrow> json_dumps v = Inr v"
  by (simp add: json_dumps_def)

lemma py_get_error: "py_get v k d = Inl e \<Longrightarrow> list_all (\<lambda>c. \<not> digit7 c) (exn_str e)"
  by (cases v) auto

lemma py_len_error: "py_len v = Inl e \<Longrightarrow> list_all (\<lambda>c. \<not> digit7 c) (exn_str e)"
  by (cases v) auto

lemma py_slice_to_error:
  "py_slice_to v n = Inl e \<Longrightarrow> list_all (\<lambda>c. \<not> digit7 c) (exn_str e)"
  by (cases v) auto

lemma py_iter_error: "py_iter v = Inl e \<Longrightarrow> list_all (\<lambda>c. \<not> digit7 c) (exn_str e)"
  by (cases v) auto

lemma py_iadd_str_error:
  "py_iadd_str v t = Inl e \<Longrightarrow> list_all (\<lambda>c. \<not> digit7 c) (exn_str e)"
  by (cases v) auto

lemma item_field_error:
  "item_field item k = Inl e \<Longrightarrow> list_all (\<lambda>c. \<not> digit7 c) (exn_str e)"
  by (auto simp: item_field_def split: if_splits dest: py_get_error)

lemma simplify_item_error:
  "simplify_item item = Inl e \<Longrightarrow> list_all (\<lambda>c. \<not> digit7 c) (exn_str e)"
  unfolding simplify_item_def
  by (auto split: sum.splits dest: item_field_error)

lemma simplify_items_error:
  "simplify_items items = Inl e \<Longrightarrow> list_all (\<lambda>c. \<not> digit7 c) (exn_str e)"
proof (induction items)
  case Nil
  then show ?case by simp
next
  case (Cons item items)
  then show ?case
    by (auto split: sum.splits dest: simplify_item_error)
qed

lemma no_web_results_error:
  "no_web_results v = Inl e \<Longrightarrow> list_all (\<lambda>c. \<not> digit7 c) (exn_str e)"
  by (auto simp: no_web_results_def split: if_splits sum.splits dest: py_len_error)

lemma scrape_markdown_error:
  "scrape_markdown result = Inl e \<Longrightarrow> list_all (\<lambda>c. \<not> digit7 c) (exn_str e)"
  by (auto simp: scrape_markdown_def Let_def split: if_splits dest: py_get_error)

lemma truncate_markdown_error:
  "truncate_markdown markdown = Inl e \<Longrightarrow> list_all (\<lambda>c. \<not> digit7 c) (exn_str e)"
  unfolding truncate_markdown_def
  by (auto split: sum.splits if_splits dest: py_slice_to_error py_len_error py_iadd_str_error)

text \<open>
  An exception raised inside the \<^verbatim>\<open>try\<close> block by the tool's own statements, and not by
  the provider, has an ASCII message, so the handler can print it.
\<close>

lemma search_try_error:
  assumes "search_try console str_of (Inr result) q limit = Inl e"
  shows "list_all (\<lambda>c. \<not> digit7 c) (exn_str e)"
  using assms unfolding search_try_def Let_def and_then_def
  by (auto split: if_splits sum.splits bool.splits
      dest: json_dumps_error print_value_error no_web_results_error py_slice_to_error
        py_iter_error simplify_items_error)

lemma scrape_try_error:
  assumes "scrape_try console str_of (Inr result) url = Inl e"
  shows "list_all (\<lambda>c. \<not> digit7 c) (exn_str e)"
  using assms unfolding scrape_try_def Let_def and_then_def
  by (auto split: if_splits sum.splits prod.splits
      dest: json_dumps_error print_value_error format_value_error py_slice_to_error
        scrape_markdown_error truncate_markdown_error)

lemma ascii_take: "list_all (\<lambda>c. \<not> digit7 c) text \<Longrightarrow> list_all (\<lambda>c. \<not> digit7 c) (take n text)"
  unfolding list_all_iff by (meson in_set_takeD)

section \<open>Properties of the loop guard\<close>

lemma count_list_drop_le: "count_list (drop n xs) x \<le> count_list xs x"
proof -
  have "count_list (take n xs @ drop n xs) x = count_list (take n xs) x + count_list (drop n xs) x"
    by (simp only: count_list_append)
  then show ?thesis by simp
qed

lemma count_list_replicate_same: "count_list (replicate k q) q = k"
  by (induction k) simp_all

lemma count_list_notin: "q \<notin> set xs \<Longrightarrow> count_list xs q = 0"
  by (induction xs) auto

lemma loop_envelope_serializable:
  "json_dumps (loop_envelope str_of q n) = Inr (loop_envelope str_of q n)"
  by (rule json_dumps_ok) (simp_all add: loop_envelope_def int_formattable_small)

text \<open>
  The window after the update holds the new query and the last nine of the queries
  recorded before it.
\<close>

lemma record_query_count:
  assumes "2 \<le> count_list (drop (length (recent_queries s) - 9) (recent_queries s)) q"
  shows "3 \<le> snd (record_query s q)"
proof -
  let ?rq = "recent_queries s"
  show ?thesis
  proof (cases "length (?rq @ [q]) > 10")
    case True
    then have ne: "?rq \<noteq> []" by auto
    have "length ?rq - 9 = Suc (length ?rq - 10)" using True by simp
    then have "drop (length ?rq - 9) ?rq = drop (length ?rq - 10) (tl ?rq)"
      by (simp add: drop_Suc)
    then have "2 \<le> count_list (tl ?rq) q"
      using assms count_list_drop_le[of "length ?rq - 10" "tl ?rq" q] by simp
    then show ?thesis using True ne by (simp add: record_query_def Let_def)
  next
    case False
    then have "drop (length ?rq - 9) ?rq = ?rq" by simp
    then show ?thesis using False assms by (simp add: record_query_def Let_def)
  qed
qed

lemma search_short_circuit:
  assumes "3 \<le> snd (record_query s q)"
  shows "firecrawl_search console str_of api s q limit =
           (Inr (loop_envelope str_of q (snd (record_query s q))), fst (record_query s q))"
proof (cases "record_query s q")
  case (Pair s1 n)
  then show ?thesis using assms
    by (simp add: firecrawl_search_def max_identical_queries_def loop_envelope_serializable)
qed

lemma record_query_requests: "search_requests (fst (record_query s q)) = search_requests s"
  by (simp add: record_query_def Let_def)

lemma record_query_counter:
  "tool_call_counter (fst (record_query s q)) = tool_call_counter s + 1"
  by (simp add: record_query_def Let_def)

lemma search_narration_ok:
  assumes "int_formattable (tool_call_counter s)" and "printable console (take 80 q)"
    and "int_formattable limit"
  shows "search_narration console s q limit = Inr ()"
  using assms by (simp add: search_narration_def format_int_ok py_print_ok and_then_Inr)

text \<open>
  A search that is not short-circuited either raises while it prints its narration, and
  asks the provider nothing, or sends the provider one request.
\<close>

lemma search_not_looped:
  assumes rec: "record_query s q = (s1, n)" and n: "n < 3"
  shows "(\<exists>e. firecrawl_search console str_of api s q limit = (Inl e, s1) \<and>
              search_narration console s1 q limit = Inl e) \<or>
         (search_narration console s1 q limit = Inr () \<and>
          firecrawl_search console str_of api s q limit =
            (search_call console str_of (api (search_requests s) q (min limit 20)) q limit,
             s1\<lparr>search_requests := search_requests s @ [(q, min limit 20)]\<rparr>))"
proof -
  have sr: "search_requests s1 = search_requests s"
    using record_query_requests[of s q] rec by simp
  show ?thesis
  proof (cases "search_narration console s1 q limit")
    case (Inl e)
    then show ?thesis using rec n
      by (simp add: firecrawl_search_def max_identical_queries_def)
  next
    case (Inr u)
    then show ?thesis using rec n sr
      by (simp add: firecrawl_search_def max_identical_queries_def Let_def)
  qed
qed

text \<open>
  A query repeated in a row: while the window ends in \<open>k\<close> copies of the query and holds no
  other copy, the next call sees \<open>k + 1\<close> of them.
\<close>

lemma record_query_repeat:
  assumes rq: "recent_queries s = xs @ replicate k q" and nin: "q \<notin> set xs" and k: "k < 10"
  shows "\<exists>xs'. record_query s q =
           (s\<lparr>tool_call_counter := tool_call_counter s + 1,
              recent_queries := xs' @ replicate (Suc k) q\<rparr>, Suc k) \<and> q \<notin> set xs'"
proof -
  have app: "recent_queries s @ [q] = xs @ replicate (Suc k) q"
    using rq by (simp add: replicate_append_same)
  have cnt: "\<And>ys. q \<notin> set ys \<Longrightarrow> count_list (ys @ replicate (Suc k) q) q = Suc k"
    by (simp add: count_list_replicate_same count_list_notin)
  show ?thesis
  proof (cases "length (recent_queries s @ [q]) > 10")
    case True
    then have ne: "xs \<noteq> []" using app k by auto
    then have tl: "tl (recent_queries s @ [q]) = tl xs @ replicate (Suc k) q"
      using app by simp
    have nin': "q \<notin> set (tl xs)" using nin ne by (meson list.set_sel(2))
    have "record_query s q =
           (s\<lparr>tool_call_counter := tool_call_counter s + 1,
              recent_queries := tl xs @ replicate (Suc k) q\<rparr>, Suc k)"
      using True tl cnt[OF nin'] by (simp add: record_query_def Let_def)
    then show ?thesis using nin' by blast
  next
    case False
    have "record_query s q =
           (s\<lparr>tool_call_counter := tool_call_counter s + 1,
              recent_queries := xs @ replicate (Suc k) q\<rparr>, Suc k)"
      using False app cnt[OF nin] by (simp add: record_query_def Let_def)
    then show ?thesis using nin by blast
  qed
qed

lemma search_step_repeat:
  assumes rq: "recent_queries s = xs @ replicate k q" and nin: "q \<notin> set xs" and k: "k < 10"
  shows "\<exists>r s' xs'. firecrawl_search console str_of api s q limit = (r, s') \<and>
           recent_queries s' = xs' @ replicate (Suc k) q \<and> q \<notin> set xs' \<and>
           tool_call_counter s' = tool_call_counter s + 1 \<and>
           (if 2 \<le> k then r = Inr (loop_envelope str_of q (Suc k)) \<and>
                           search_requests s' = search_requests s
            else (search_requests s' = search_requests s \<or>
                  search_requests s' = search_requests s @ [(q, min limit 20)]) \<and>
                 (int_formattable (tool_call_counter s + 1) \<and> printable console (take 80 q) \<and>
                  int_formattable limit \<longrightarrow>
                  search_requests s' = search_requests s @ [(q, min limit 20)]))"
proof -
  obtain xs' where rec: "record_query s q =
           (s\<lparr>tool_call_counter := tool_call_counter s + 1,
              recent_queries := xs' @ replicate (Suc k) q\<rparr>, Suc k)" and nin': "q \<notin> set xs'"
    using record_query_repeat[OF rq nin k] by blast
  let ?s1 = "s\<lparr>tool_call_counter := tool_call_counter s + 1,
               recent_queries := xs' @ replicate (Suc k) q\<rparr>"
  show ?thesis
  proof (cases "2 \<le> k")
    case True
    then show ?thesis using rec nin'
      by (simp add: firecrawl_search_def max_identical_queries_def loop_envelope_serializable)
  next
    case False
    then have small: "Suc k < 3" by simp
    have ok: "int_formattable (tool_call_counter s + 1) \<and> printable console (take 80 q) \<and>
              int_formattable limit \<Longrightarrow> search_narration console ?s1 q limit = Inr ()"
      by (rule search_narration_ok) simp_all
    from search_not_looped[OF rec small, of console str_of api limit]
    show ?thesis
    proof
      assume "\<exists>e. firecrawl_search console str_of api s q limit = (Inl e, ?s1) \<and>
                  search_narration console ?s1 q limit = Inl e"
      then obtain e where c: "firecrawl_search console str_of api s q limit = (Inl e, ?s1)"
        and f: "search_narration console ?s1 q limit = Inl e" by blast
      have no: "\<not> (int_formattable (tool_call_counter s + 1) \<and> printable console (take 80 q) \<and>
              int_formattable limit)" using ok f by auto
      show ?thesis using c nin' False no
        by (intro exI[of _ "Inl e"] exI[of _ ?s1] exI[of _ xs']) simp
    next
      assume a: "search_narration console ?s1 q limit = Inr () \<and>
          firecrawl_search console str_of api s q limit =
            (search_call console str_of (api (search_requests s) q (min limit 20)) q limit,
             ?s1\<lparr>search_requests := search_requests s @ [(q, min limit 20)]\<rparr>)"
      show ?thesis using a nin' False
        by (intro exI[of _ "search_call console str_of (api (search_requests s) q (min limit 20)) q limit"]
              exI[of _ "?s1\<lparr>search_requests := search_requests s @ [(q, min limit 20)]\<rparr>"]
              exI[of _ xs']) simp
    qed
  qed
qed

lemma five_identical_searches:
  assumes nin: "q \<notin> set (recent_queries s)"
  shows "\<exists>r1 r2 s' k.
           run_searches console str_of api s
             [(q, limit), (q, limit), (q, limit), (q, limit), (q, limit)] =
             ([r1, r2, Inr (loop_envelope str_of q 3), Inr (loop_envelope str_of q 4),
               Inr (loop_envelope str_of q 5)], s') \<and>
           k \<le> 2 \<and>
           search_requests s' = search_requests s @ replicate k (q, min limit 20) \<and>
           (int_formattable (tool_call_counter s + 1) \<and>
            int_formattable (tool_call_counter s + 2) \<and>
            printable console (take 80 q) \<and> int_formattable limit \<longrightarrow> k = 2)"
proof -
  let ?ok = "\<lambda>n. int_formattable n \<and> printable console (take 80 q) \<and> int_formattable limit"
  have rq0: "recent_queries s = recent_queries s @ replicate 0 q" by simp
  obtain r1 s1 xs1 where c1: "firecrawl_search console str_of api s q limit = (r1, s1)"
    and w1: "recent_queries s1 = xs1 @ replicate (Suc 0) q" and n1: "q \<notin> set xs1"
    and t1: "tool_call_counter s1 = tool_call_counter s + 1"
    and l1: "search_requests s1 = search_requests s \<or>
             search_requests s1 = search_requests s @ [(q, min limit 20)]"
    and o1: "?ok (tool_call_counter s + 1) \<longrightarrow>
             search_requests s1 = search_requests s @ [(q, min limit 20)]"
    using search_step_repeat[OF rq0 nin, of console str_of api limit] by auto
  obtain r2 s2 xs2 where c2: "firecrawl_search console str_of api s1 q limit = (r2, s2)"
    and w2: "recent_queries s2 = xs2 @ replicate (Suc (Suc 0)) q" and n2: "q \<notin> set xs2"
    and l2: "search_requests s2 = search_requests s1 \<or>
             search_requests s2 = search_requests s1 @ [(q, min limit 20)]"
    and o2: "?ok (tool_call_counter s1 + 1) \<longrightarrow>
             search_requests s2 = search_requests s1 @ [(q, min limit 20)]"
    using search_step_repeat[OF w1 n1, of console str_of api limit] by auto
  have w2': "recent_queries s2 = xs2 @ replicate 2 q" using w2 by (simp add: numeral_2_eq_2)
  obtain s3 xs3 where c3: "firecrawl_search console str_of api s2 q limit =
        (Inr (loop_envelope str_of q 3), s3)"
    and w3: "recent_queries s3 = xs3 @ replicate 3 q" and n3: "q \<notin> set xs3"
    and l3: "search_requests s3 = search_requests s2"
    using search_step_repeat[OF w2' n2, of console str_of api limit]
    by (auto simp: numeral_3_eq_3)
  obtain s4 xs4 where c4: "firecrawl_search console str_of api s3 q limit =
        (Inr (loop_envelope str_of q 4), s4)"
    and w4: "recent_queries s4 = xs4 @ replicate 4 q" and n4: "q \<notin> set xs4"
    and l4: "search_requests s4 = search_requests s3"
    using search_step_repeat[OF w3 n3, of console str_of api limit]
    by (auto simp: eval_nat_numeral)
  obtain s5 where c5: "firecrawl_search console str_of api s4 q limit =
        (Inr (loop_envelope str_of q 5), s5)"
    and l5: "search_requests s5 = search_requests s4"
    using search_step_repeat[OF w4 n4, of console str_of api limit]
    by (auto simp: eval_nat_numeral)
  have run: "run_searches console str_of api s
             [(q, limit), (q, limit), (q, limit), (q, limit), (q, limit)] =
             ([r1, r2, Inr (loop_envelope str_of q 3), Inr (loop_envelope str_of q 4),
               Inr (loop_envelope str_of q 5)], s5)"
    by (simp add: c1 c2 c3 c4 c5)
  have t2: "tool_call_counter s1 + 1 = tool_call_counter s + 2" using t1 by simp
  have both: "?ok (tool_call_counter s + 1) \<and> ?ok (tool_call_counter s + 2) \<Longrightarrow>
              search_requests s2 = search_requests s @ replicate 2 (q, min limit 20)"
    using o1 o2 t2 by (simp add: numeral_2_eq_2)
  have some: "\<exists>k\<le>2. search_requests s2 = search_requests s @ replicate k (q, min limit 20)"
  proof -
    from l1 l2 consider
        (none) "search_requests s2 = search_requests s"
      | (one) "search_requests s2 = search_requests s @ [(q, min limit 20)]"
      | (two) "search_requests s2 = search_requests s @ [(q, min limit 20), (q, min limit 20)]"
      by auto
    then show ?thesis
    proof cases
      case none
      then show ?thesis by (intro exI[of _ 0]) simp
    next
      case one
      then show ?thesis by (intro exI[of _ 1]) simp
    next
      case two
      then show ?thesis by (intro exI[of _ 2]) (simp add: numeral_2_eq_2)
    qed
  qed
  have s5: "search_requests s5 = search_requests s2" by (simp add: l3 l4 l5)
  show ?thesis
  proof (cases "?ok (tool_call_counter s + 1) \<and> ?ok (tool_call_counter s + 2)")
    case True
    then have "search_requests s5 = search_requests s @ replicate 2 (q, min limit 20)"
      using both s5 by simp
    then show ?thesis using run
      by (intro exI[of _ r1] exI[of _ r2] exI[of _ s5] exI[of _ 2]) simp
  next
    case False
    obtain k where "k \<le> 2"
      and "search_requests s2 = search_requests s @ replicate k (q, min limit 20)"
      using some by blast
    then show ?thesis using run s5 False
      by (intro exI[of _ r1] exI[of _ r2] exI[of _ s5] exI[of _ k]) auto
  qed
qed

text \<open>
  C1 (as amended). If the query occurs at least twice among the last nine queries recorded
  before the call, so that the call is the third or later identical occurrence within the
  ten-entry window that includes it, \<open>firecrawl_search\<close> returns the synthetic envelope:
  \<open>success\<close> true, \<open>credits_used = 0\<close>, a non-empty \<open>note\<close>, and no request reaches the
  provider. When a query that the window does not hold is issued five times in a row, calls
  3 to 5 return that envelope and only calls 1 and 2 can reach the provider, each with at
  most one request: the provider is asked at most twice, and exactly twice when the lines
  that calls 1 and 2 print before their request can be printed (the two call numbers and
  the limit have at most 4300 digits, the console can encode the first 80 characters of
  the query).
\<close>

theorem loop_guard_short_circuits:
  "(2 \<le> count_list (drop (length (recent_queries s) - 9) (recent_queries s)) query \<longrightarrow>
      (\<exists>n s'. firecrawl_search console str_of api s query limit =
                 (Inr (loop_envelope str_of query n), s') \<and>
               3 \<le> n \<and> search_requests s' = search_requests s \<and>
               envelope_get (loop_envelope str_of query n) ''success'' = Some (PBool True) \<and>
               envelope_get (loop_envelope str_of query n) ''credits_used'' = Some (PInt 0) \<and>
               (\<exists>t. envelope_get (loop_envelope str_of query n) ''note'' = Some (PStr t) \<and>
                    t \<noteq> []))) \<and>
   (query \<notin> set (recent_queries s) \<longrightarrow>
      (\<exists>r1 r2 s' k.
          run_searches console str_of api s
            [(query, limit), (query, limit), (query, limit), (query, limit), (query, limit)] =
            ([r1, r2, Inr (loop_envelope str_of query 3), Inr (loop_envelope str_of query 4),
              Inr (loop_envelope str_of query 5)], s') \<and>
          k \<le> 2 \<and>
          search_requests s' = search_requests s @ replicate k (query, min limit 20) \<and>
          (int_formattable (tool_call_counter s + 1) \<and>
           int_formattable (tool_call_counter s + 2) \<and>
           printable console (take 80 query) \<and> int_formattable limit \<longrightarrow> k = 2)))"
proof (intro conjI impI)
  assume h: "2 \<le> count_list (drop (length (recent_queries s) - 9) (recent_queries s)) query"
  have c: "3 \<le> snd (record_query s query)" by (rule record_query_count[OF h])
  have "firecrawl_search console str_of api s query limit =
          (Inr (loop_envelope str_of query (snd (record_query s query))), fst (record_query s query))"
    by (rule search_short_circuit[OF c])
  moreover have "\<And>n. envelope_get (loop_envelope str_of query n) ''success'' = Some (PBool True)"
    by (simp add: loop_envelope_def)
  moreover have "\<And>n. envelope_get (loop_envelope str_of query n) ''credits_used'' = Some (PInt 0)"
    by (simp add: loop_envelope_def)
  moreover have "\<And>n. \<exists>t. envelope_get (loop_envelope str_of query n) ''note'' = Some (PStr t) \<and> t \<noteq> []"
    by (simp add: loop_envelope_def)
  ultimately show "\<exists>n s'. firecrawl_search console str_of api s query limit =
                 (Inr (loop_envelope str_of query n), s') \<and>
               3 \<le> n \<and> search_requests s' = search_requests s \<and>
               envelope_get (loop_envelope str_of query n) ''success'' = Some (PBool True) \<and>
               envelope_get (loop_envelope str_of query n) ''credits_used'' = Some (PInt 0) \<and>
               (\<exists>t. envelope_get (loop_envelope str_of query n) ''note'' = Some (PStr t) \<and>
                    t \<noteq> [])"
    using c record_query_requests[of s query] by blast
next
  assume "query \<notin> set (recent_queries s)"
  then show "\<exists>r1 r2 s' k.
          run_searches console str_of api s
            [(query, limit), (query, limit), (query, limit), (query, limit), (query, limit)] =
            ([r1, r2, Inr (loop_envelope str_of query 3), Inr (loop_envelope str_of query 4),
              Inr (loop_envelope str_of query 5)], s') \<and>
          k \<le> 2 \<and>
          search_requests s' = search_requests s @ replicate k (query, min limit 20) \<and>
          (int_formattable (tool_call_counter s + 1) \<and>
           int_formattable (tool_call_counter s + 2) \<and>
           printable console (take 80 query) \<and> int_formattable limit \<longrightarrow> k = 2)"
    by (rule five_identical_searches)
qed

lemma one_page_search:
  "search_try utf8_console example_str_of (Inr one_page_response) q 10 = Inr (one_page_envelope q)"
  by (simp add: search_try_def one_page_response_def one_page_envelope_def no_web_results_def
      slice_to_def simplify_item_def item_field_def json_dumps_def found_envelope_def
      print_value_def format_value_def py_print_def printable_def and_then_def
      int_formattable_small)

lemma example_narration:
  "\<bar>tool_call_counter s\<bar> < 1000000 \<Longrightarrow> \<bar>limit\<bar> < 1000000 \<Longrightarrow> lone_surrogate \<notin> set q \<Longrightarrow>
   search_narration utf8_console s q limit = Inr ()"
proof (rule search_narration_ok)
  assume a: "\<bar>tool_call_counter s\<bar> < 1000000" and b: "\<bar>limit\<bar> < 1000000"
    and c: "lone_surrogate \<notin> set q"
  show "int_formattable (tool_call_counter s)" using a by (rule int_formattable_small)
  show "int_formattable limit" using b by (rule int_formattable_small)
  have "\<forall>x\<in>set (take 80 q). x \<noteq> lone_surrogate" using c in_set_takeD[of _ 80 q] by blast
  then show "printable utf8_console (take 80 q)"
    unfolding printable_def utf8_console_def list_all_iff by simp
qed

lemma after_ten_queries_state:
  "after_ten_queries =
     \<lparr>tool_call_counter = 10, recent_queries = ten_queries,
      search_requests = map (\<lambda>q. (q, 10)) ten_queries, scrape_requests = []\<rparr>"
  unfolding after_ten_queries_def ten_queries_def
  by (simp add: firecrawl_search_def record_query_def initial_state_def max_identical_queries_def
      example_search_api_def search_call_def one_page_search Let_def example_narration
      lone_surrogate_def)

text \<open>
  The theorem at concrete inputs: a window holding \<^verbatim>\<open>x\<close> twice among its last nine
  entries, and five searches for \<^verbatim>\<open>x\<close> in a fresh run.
\<close>

theorem loop_guard_short_circuits_witness:
  "2 \<le> count_list (drop (length (recent_queries (initial_state\<lparr>recent_queries := [''x'', ''y'', ''x'']\<rparr>)) - 9)
                    (recent_queries (initial_state\<lparr>recent_queries := [''x'', ''y'', ''x'']\<rparr>))) ''x'' \<and>
   (\<exists>n s'. firecrawl_search utf8_console example_str_of example_search_api
              (initial_state\<lparr>recent_queries := [''x'', ''y'', ''x'']\<rparr>) ''x'' 10 =
              (Inr (loop_envelope example_str_of ''x'' n), s') \<and> 3 \<le> n \<and>
            search_requests s' = []) \<and>
   ''x'' \<notin> set (recent_queries initial_state) \<and>
   int_formattable (tool_call_counter initial_state + 1) \<and>
   int_formattable (tool_call_counter initial_state + 2) \<and>
   printable utf8_console (take 80 ''x'') \<and> int_formattable 10 \<and>
   (\<exists>r1 r2 s'.
      run_searches utf8_console example_str_of example_search_api initial_state
        [(''x'', 10), (''x'', 10), (''x'', 10), (''x'', 10), (''x'', 10)] =
        ([r1, r2, Inr (loop_envelope example_str_of ''x'' 3),
          Inr (loop_envelope example_str_of ''x'' 4),
          Inr (loop_envelope example_str_of ''x'' 5)], s') \<and>
      search_requests s' = [(''x'', 10), (''x'', 10)])"
proof -
  let ?s = "initial_state\<lparr>recent_queries := [''x'', ''y'', ''x'']\<rparr>"
  have h1: "2 \<le> count_list (drop (length (recent_queries ?s) - 9) (recent_queries ?s)) ''x''"
    by (simp add: initial_state_def)
  have h2: "''x'' \<notin> set (recent_queries initial_state)"
    by (simp add: initial_state_def)
  have h3: "int_formattable (tool_call_counter initial_state + 1) \<and>
            int_formattable (tool_call_counter initial_state + 2) \<and>
            printable utf8_console (take 80 ''x'') \<and> int_formattable 10"
    by (simp add: initial_state_def int_formattable_small printable_def)
  have a: "\<exists>n s'. firecrawl_search utf8_console example_str_of example_search_api ?s ''x'' 10 =
              (Inr (loop_envelope example_str_of ''x'' n), s') \<and> 3 \<le> n \<and>
            search_requests s' = []"
  proof -
    have e: "search_requests ?s = []" by (simp add: initial_state_def)
    obtain n s' where "firecrawl_search utf8_console example_str_of example_search_api ?s ''x'' 10 =
              (Inr (loop_envelope example_str_of ''x'' n), s')" "3 \<le> n"
              "search_requests s' = search_requests ?s"
      using loop_guard_short_circuits[of ?s "''x''" utf8_console example_str_of
          example_search_api 10] h1
      by blast
    then show ?thesis unfolding e by blast
  qed
  have b: "\<exists>r1 r2 s'.
      run_searches utf8_console example_str_of example_search_api initial_state
        [(''x'', 10), (''x'', 10), (''x'', 10), (''x'', 10), (''x'', 10)] =
        ([r1, r2, Inr (loop_envelope example_str_of ''x'' 3),
          Inr (loop_envelope example_str_of ''x'' 4),
          Inr (loop_envelope example_str_of ''x'' 5)], s') \<and>
      search_requests s' = [(''x'', 10), (''x'', 10)]"
  proof -
    have e: "search_requests initial_state = []" by (simp add: initial_state_def)
    have m: "min (10::int) 20 = 10" by simp
    obtain r1 r2 s' k where
      "run_searches utf8_console example_str_of example_search_api initial_state
        [(''x'', 10), (''x'', 10), (''x'', 10), (''x'', 10), (''x'', 10)] =
        ([r1, r2, Inr (loop_envelope example_str_of ''x'' 3),
          Inr (loop_envelope example_str_of ''x'' 4),
          Inr (loop_envelope example_str_of ''x'' 5)], s')"
      "search_requests s' = search_requests initial_state @ replicate k (''x'', min 10 20)"
      "k = 2"
      using loop_guard_short_circuits[of initial_state "''x''" utf8_console example_str_of
          example_search_api 10] h2 h3
      by blast
    then show ?thesis unfolding e m by (auto simp: numeral_2_eq_2)
  qed
  show ?thesis using h1 h2 h3 a b by blast
qed

text \<open>
  The claim as worded fails at the edge of the window. After the ten searches
  \<^verbatim>\<open>x, a, b, c, d, e, f, g, h, x\<close> of a fresh run, \<^verbatim>\<open>x\<close> has occurred twice among the last ten
  recorded queries; the next search for \<^verbatim>\<open>x\<close> evicts the older occurrence before it counts,
  finds two matches, calls the provider and is billed two credits. And of five searches for
  \<^verbatim>\<open>x\<close> with a limit of 4301 digits in a fresh run, calls 1 and 2 raise \<^verbatim>\<open>ValueError\<close> at
  line 151, where the limit is printed, and none reaches the provider.
\<close>

theorem loop_guard_window_counterexample:
  "length (recent_queries after_ten_queries) = 10 \<and>
   count_list (recent_queries after_ten_queries) ''x'' = 2 \<and>
   firecrawl_search utf8_console example_str_of example_search_api after_ten_queries ''x'' 10 =
     (Inr (one_page_envelope ''x''),
      \<lparr>tool_call_counter = 11,
       recent_queries = [''a'', ''b'', ''c'', ''d'', ''e'', ''f'', ''g'', ''h'', ''x'', ''x''],
       search_requests = search_requests after_ten_queries @ [(''x'', 10)],
       scrape_requests = []\<rparr>) \<and>
   envelope_get (one_page_envelope ''x'') ''credits_used'' = Some (PInt 2) \<and>
   run_searches utf8_console example_str_of example_search_api initial_state
     [(''x'', huge_limit), (''x'', huge_limit), (''x'', huge_limit), (''x'', huge_limit),
      (''x'', huge_limit)] =
     ([Inl digits_exceeded, Inl digits_exceeded, Inr (loop_envelope example_str_of ''x'' 3),
       Inr (loop_envelope example_str_of ''x'' 4), Inr (loop_envelope example_str_of ''x'' 5)],
      \<lparr>tool_call_counter = 5, recent_queries = [''x'', ''x'', ''x'', ''x'', ''x''],
       search_requests = [], scrape_requests = []\<rparr>)"
proof -
  have a: "length (recent_queries after_ten_queries) = 10 \<and>
   count_list (recent_queries after_ten_queries) ''x'' = 2 \<and>
   firecrawl_search utf8_console example_str_of example_search_api after_ten_queries ''x'' 10 =
     (Inr (one_page_envelope ''x''),
      \<lparr>tool_call_counter = 11,
       recent_queries = [''a'', ''b'', ''c'', ''d'', ''e'', ''f'', ''g'', ''h'', ''x'', ''x''],
       search_requests = search_requests after_ten_queries @ [(''x'', 10)],
       scrape_requests = []\<rparr>) \<and>
   envelope_get (one_page_envelope ''x'') ''credits_used'' = Some (PInt 2)"
    by (simp add: after_ten_queries_state ten_queries_def firecrawl_search_def record_query_def
        max_identical_queries_def example_search_api_def search_call_def one_page_search Let_def
        one_page_envelope_def found_envelope_def example_narration lone_surrogate_def)
  have n: "\<And>s. \<bar>tool_call_counter s\<bar> < 1000000 \<Longrightarrow>
             search_narration utf8_console s ''x'' huge_limit = Inl digits_exceeded"
    by (simp add: search_narration_def format_int_def py_print_def printable_def and_then_def
        int_formattable_small huge_limit_unformattable)
  have b: "run_searches utf8_console example_str_of example_search_api initial_state
     [(''x'', huge_limit), (''x'', huge_limit), (''x'', huge_limit), (''x'', huge_limit),
      (''x'', huge_limit)] =
     ([Inl digits_exceeded, Inl digits_exceeded, Inr (loop_envelope example_str_of ''x'' 3),
       Inr (loop_envelope example_str_of ''x'' 4), Inr (loop_envelope example_str_of ''x'' 5)],
      \<lparr>tool_call_counter = 5, recent_queries = [''x'', ''x'', ''x'', ''x'', ''x''],
       search_requests = [], scrape_requests = []\<rparr>)"
    by (simp add: firecrawl_search_def record_query_def initial_state_def
        max_identical_queries_def n loop_envelope_serializable Let_def eval_nat_numeral)
  show ?thesis using a b by blast
qed

section \<open>When the tools return and when they raise\<close>

lemma search_error_envelope_dumps:
  "json_dumps (search_error_envelope q e) = Inr (search_error_envelope q e)"
  by (rule json_dumps_ok) (simp_all add: search_error_envelope_def int_formattable_small)

lemma scrape_error_envelope_dumps:
  "json_dumps (scrape_error_envelope url e) = Inr (scrape_error_envelope url e)"
  by (rule json_dumps_ok) (simp_all add: scrape_error_envelope_def int_formattable_small)

lemma search_try_success:
  assumes "search_try console str_of outcome q limit = Inr env"
  shows "envelope_get env ''success'' = Some (PBool True)"
proof (cases outcome)
  case (Inl e)
  then show ?thesis using assms by (simp add: search_try_def)
next
  case (Inr result)
  have env: "env = search_failed_envelope str_of q (py_getattr result ''error'' (PStr ''Unknown error''))
      \<or> env = no_results_envelope q (py_getattr result ''creditsUsed'' (PInt 0))
      \<or> (\<exists>simplified. env = found_envelope q simplified (py_getattr result ''creditsUsed'' (PInt 2)))
      \<or> env = no_data_envelope q"
    using assms Inr
    by (auto simp: search_try_def Let_def and_then_eq_Inr dest!: json_dumps_Inr
        split: if_splits sum.splits bool.splits)
  then show ?thesis
    by (auto simp: search_failed_envelope_def no_results_envelope_def found_envelope_def
        no_data_envelope_def)
qed

lemma scrape_try_success:
  assumes "scrape_try console str_of outcome url = Inr env"
  shows "envelope_get env ''success'' = Some (PBool True)"
proof (cases outcome)
  case (Inl e)
  then show ?thesis using assms by (simp add: scrape_try_def)
next
  case (Inr result)
  have env: "(\<exists>truncated n. env = scraped_envelope url truncated n)
      \<or> (\<exists>error50. env = scrape_failed_envelope str_of url error50)"
    using assms Inr
    by (auto simp: scrape_try_def Let_def and_then_eq_Inr dest!: json_dumps_Inr
        split: if_splits sum.splits prod.splits)
  then show ?thesis
    by (auto simp: scraped_envelope_def scrape_failed_envelope_def)
qed

text \<open>The handler's print succeeds for every exception it can be given.\<close>

lemma search_handler_prints:
  assumes p: "printable_exception console outcome"
    and t: "search_try console str_of outcome q limit = Inl e"
  shows "py_print console (take 100 (exn_str e)) = Inr ()"
proof (cases outcome)
  case (Inl e')
  then have "e = e'" using t by (simp add: search_try_def)
  then show ?thesis using p Inl by (simp add: printable_exception_def py_print_ok)
next
  case (Inr result)
  then have "list_all (\<lambda>c. \<not> digit7 c) (exn_str e)" using t search_try_error by blast
  then show ?thesis by (intro py_print_ok ascii_printable ascii_take)
qed

lemma scrape_handler_prints:
  assumes p: "printable_exception console outcome"
    and t: "scrape_try console str_of outcome url = Inl e"
  shows "py_print console (take 100 (exn_str e)) = Inr ()"
proof (cases outcome)
  case (Inl e')
  then have "e = e'" using t by (simp add: scrape_try_def)
  then show ?thesis using p Inl by (simp add: printable_exception_def py_print_ok)
next
  case (Inr result)
  then have "list_all (\<lambda>c. \<not> digit7 c) (exn_str e)" using t scrape_try_error by blast
  then show ?thesis by (intro py_print_ok ascii_printable ascii_take)
qed

lemma search_call_handled:
  assumes "printable_exception console outcome"
    and "search_try console str_of outcome q limit = Inl e"
  shows "search_call console str_of outcome q limit = Inr (search_error_envelope q e)"
  using assms(2) search_handler_prints[OF assms]
  by (simp add: search_call_def and_then_Inr search_error_envelope_dumps)

lemma scrape_call_handled:
  assumes "printable_exception console outcome"
    and "scrape_try console str_of outcome url = Inl e"
  shows "scrape_call console str_of outcome url = Inr (scrape_error_envelope url e)"
  using assms(2) scrape_handler_prints[OF assms]
  by (simp add: scrape_call_def and_then_Inr scrape_error_envelope_dumps)

lemma search_call_returns:
  assumes "printable_exception console outcome"
  shows "\<exists>env. search_call console str_of outcome q limit = Inr env \<and>
         envelope_get env ''success'' = Some (PBool True)"
proof (cases "search_try console str_of outcome q limit")
  case (Inl e)
  then have "search_call console str_of outcome q limit = Inr (search_error_envelope q e)"
    using assms by (rule search_call_handled[rotated])
  then show ?thesis by (simp add: search_error_envelope_def)
next
  case (Inr env)
  then show ?thesis using search_try_success[OF Inr] by (simp add: search_call_def)
qed

lemma scrape_call_returns:
  assumes "printable_exception console outcome"
  shows "\<exists>env. scrape_call console str_of outcome url = Inr env \<and>
         envelope_get env ''success'' = Some (PBool True)"
proof (cases "scrape_try console str_of outcome url")
  case (Inl e)
  then have "scrape_call console str_of outcome url = Inr (scrape_error_envelope url e)"
    using assms by (rule scrape_call_handled[rotated])
  then show ?thesis by (simp add: scrape_error_envelope_def)
next
  case (Inr env)
  then show ?thesis using scrape_try_success[OF Inr] by (simp add: scrape_call_def)
qed

text \<open>
  A search whose narration prints is short-circuited or is the \<^verbatim>\<open>try\<close> statement on the
  provider's answer; a scrape whose narration prints is the \<^verbatim>\<open>try\<close> statement.
\<close>

lemma search_looped_or_called:
  assumes "int_formattable (tool_call_counter s + 1)" and "printable console (take 80 q)"
    and "int_formattable limit"
  shows "(\<exists>n. fst (firecrawl_search console str_of api s q limit) =
               Inr (loop_envelope str_of q n)) \<or>
   fst (firecrawl_search console str_of api s q limit) =
     search_call console str_of (api (search_requests s) q (min limit 20)) q limit"
proof (cases "record_query s q")
  case (Pair s1 n)
  have sr: "search_requests s1 = search_requests s"
    using record_query_requests[of s q] Pair by simp
  have "tool_call_counter s1 = tool_call_counter s + 1"
    using record_query_counter[of s q] Pair by simp
  then have "search_narration console s1 q limit = Inr ()"
    using assms by (intro search_narration_ok) simp_all
  then show ?thesis using Pair sr
    by (auto simp: firecrawl_search_def Let_def loop_envelope_serializable)
qed

lemma scrape_narration_ok:
  assumes "int_formattable (tool_call_counter s)" and "printable console url"
  shows "scrape_narration console s url = Inr ()"
  using assms
  by (simp add: scrape_narration_def format_int_ok py_print_ok and_then_Inr printable_take)

lemma scrape_is_call:
  assumes "int_formattable (tool_call_counter s + 1)" and "printable console url"
  shows "firecrawl_scrape console str_of api s url =
     (scrape_call console str_of (api (scrape_requests s) url) url,
      s\<lparr>tool_call_counter := tool_call_counter s + 1,
        scrape_requests := scrape_requests s @ [url]\<rparr>)"
proof -
  have "scrape_narration console (s\<lparr>tool_call_counter := tool_call_counter s + 1\<rparr>) url = Inr ()"
    using assms by (intro scrape_narration_ok) simp_all
  then show ?thesis by (simp add: firecrawl_scrape_def Let_def)
qed

text \<open>
  C2 (as amended). Both tools print before their \<^verbatim>\<open>try\<close> block and in its handler, and
  an exception of such a print leaves the tool. When the lines before the \<^verbatim>\<open>try\<close> can be
  printed (the call number and, for a search, the limit have at most 4300 digits; the
  console can encode the first 80 characters of the query or the url) and, in case the
  provider call raises, the console can encode the first 100 characters of the exception's
  message, then for every state of the globals and every provider behaviour (an error
  report, an empty result, missing data, a response of any shape, a raised exception)
  \<open>firecrawl_search\<close> and \<open>firecrawl_scrape\<close> return to their caller and the envelope they
  return has \<open>success = True\<close>.
\<close>

theorem tools_return_envelope:
  "(int_formattable (tool_call_counter s + 1) \<and> printable console (take 80 query) \<and>
    int_formattable limit \<and>
    printable_exception console (search_api (search_requests s) query (min limit 20)) \<longrightarrow>
    (\<exists>env. fst (firecrawl_search console str_of search_api s query limit) = Inr env \<and>
           envelope_get env ''success'' = Some (PBool True))) \<and>
   (int_formattable (tool_call_counter s + 1) \<and> printable console url \<and>
    printable_exception console (scrape_api (scrape_requests s) url) \<longrightarrow>
    (\<exists>env. fst (firecrawl_scrape console str_of scrape_api s url) = Inr env \<and>
           envelope_get env ''success'' = Some (PBool True)))"
proof (intro conjI impI)
  assume h: "int_formattable (tool_call_counter s + 1) \<and> printable console (take 80 query) \<and>
    int_formattable limit \<and>
    printable_exception console (search_api (search_requests s) query (min limit 20))"
  from h have "(\<exists>n. fst (firecrawl_search console str_of search_api s query limit) =
               Inr (loop_envelope str_of query n)) \<or>
     fst (firecrawl_search console str_of search_api s query limit) =
       search_call console str_of (search_api (search_requests s) query (min limit 20)) query limit"
    by (intro search_looped_or_called) simp_all
  then show "\<exists>env. fst (firecrawl_search console str_of search_api s query limit) = Inr env \<and>
           envelope_get env ''success'' = Some (PBool True)"
  proof
    assume "\<exists>n. fst (firecrawl_search console str_of search_api s query limit) =
               Inr (loop_envelope str_of query n)"
    then show ?thesis by (auto simp: loop_envelope_def)
  next
    assume "fst (firecrawl_search console str_of search_api s query limit) =
       search_call console str_of (search_api (search_requests s) query (min limit 20)) query limit"
    then show ?thesis
      using h search_call_returns[of console
          "search_api (search_requests s) query (min limit 20)" str_of query limit]
      by simp
  qed
next
  assume h: "int_formattable (tool_call_counter s + 1) \<and> printable console url \<and>
    printable_exception console (scrape_api (scrape_requests s) url)"
  then have "fst (firecrawl_scrape console str_of scrape_api s url) =
      scrape_call console str_of (scrape_api (scrape_requests s) url) url"
    using scrape_is_call[of s console url str_of scrape_api] by simp
  then show "\<exists>env. fst (firecrawl_scrape console str_of scrape_api s url) = Inr env \<and>
           envelope_get env ''success'' = Some (PBool True)"
    using h scrape_call_returns[of console "scrape_api (scrape_requests s) url" str_of url]
    by simp
qed

text \<open>The theorem at a fresh state, for a search and a scrape whose provider answers.\<close>

theorem tools_return_envelope_witness:
  "int_formattable (tool_call_counter initial_state + 1) \<and>
   printable utf8_console (take 80 ''q'') \<and> int_formattable 10 \<and>
   printable_exception utf8_console
     (example_search_api (search_requests initial_state) ''q'' (min 10 20)) \<and>
   (\<exists>env. fst (firecrawl_search utf8_console example_str_of example_search_api initial_state
                 ''q'' 10) = Inr env \<and>
          envelope_get env ''success'' = Some (PBool True)) \<and>
   printable utf8_console ''u'' \<and>
   printable_exception utf8_console (example_scrape_api (scrape_requests initial_state) ''u'') \<and>
   (\<exists>env. fst (firecrawl_scrape utf8_console example_str_of example_scrape_api initial_state
                 ''u'') = Inr env \<and>
          envelope_get env ''success'' = Some (PBool True))"
proof -
  have h1: "int_formattable (tool_call_counter initial_state + 1) \<and>
      printable utf8_console (take 80 ''q'') \<and> int_formattable 10 \<and>
      printable_exception utf8_console
        (example_search_api (search_requests initial_state) ''q'' (min 10 20))"
    by (simp add: initial_state_def int_formattable_small printable_def
        printable_exception_def example_search_api_def)
  have h2: "int_formattable (tool_call_counter initial_state + 1) \<and>
      printable utf8_console ''u'' \<and>
      printable_exception utf8_console (example_scrape_api (scrape_requests initial_state) ''u'')"
    by (simp add: initial_state_def int_formattable_small printable_def
        printable_exception_def example_scrape_api_def)
  have a: "\<exists>env. fst (firecrawl_search utf8_console example_str_of example_search_api
                 initial_state ''q'' 10) = Inr env \<and>
          envelope_get env ''success'' = Some (PBool True)"
    using tools_return_envelope[of initial_state utf8_console "''q''" 10 example_search_api
        example_str_of "''u''" example_scrape_api] h1
    by blast
  have b: "\<exists>env. fst (firecrawl_scrape utf8_console example_str_of example_scrape_api
                 initial_state ''u'') = Inr env \<and>
          envelope_get env ''success'' = Some (PBool True)"
    using tools_return_envelope[of initial_state utf8_console "''q''" 10 example_search_api
        example_str_of "''u''" example_scrape_api] h2
    by blast
  show ?thesis using h1 h2 a b by blast
qed

text \<open>
  The claim as worded fails. A search with a limit of 4301 digits raises \<^verbatim>\<open>ValueError\<close>
  at line 151, where the limit is printed before the \<^verbatim>\<open>try\<close>. A scrape of a url with a
  lone surrogate raises \<^verbatim>\<open>UnicodeEncodeError\<close> at line 278, where the url is printed before
  the \<^verbatim>\<open>try\<close>. A search whose provider raises an exception with a lone surrogate in its
  message raises \<^verbatim>\<open>UnicodeEncodeError\<close> at line 243, in the handler. In each case the
  exception reaches the caller and no envelope is returned.
\<close>

theorem tools_raise_counterexample:
  "fst (firecrawl_search utf8_console example_str_of example_search_api initial_state
          ''q'' huge_limit) = Inl digits_exceeded \<and>
   fst (firecrawl_scrape utf8_console example_str_of example_scrape_api initial_state
          [lone_surrogate]) = Inl (UnicodeEncodeError ''codec cannot encode character'') \<and>
   fst (firecrawl_search utf8_console example_str_of raising_search_api initial_state
          ''q'' 10) = Inl (UnicodeEncodeError ''codec cannot encode character'')"
proof -
  have a: "fst (firecrawl_search utf8_console example_str_of example_search_api initial_state
          ''q'' huge_limit) = Inl digits_exceeded"
    by (simp add: firecrawl_search_def record_query_def initial_state_def
        max_identical_queries_def search_narration_def format_int_def py_print_def
        printable_def and_then_def int_formattable_small huge_limit_unformattable Let_def)
  have b: "fst (firecrawl_scrape utf8_console example_str_of example_scrape_api initial_state
          [lone_surrogate]) = Inl (UnicodeEncodeError ''codec cannot encode character'')"
    by (simp add: firecrawl_scrape_def initial_state_def scrape_narration_def format_int_def
        py_print_def printable_def and_then_def int_formattable_small utf8_console_def
        lone_surrogate_def Let_def)
  have c: "fst (firecrawl_search utf8_console example_str_of raising_search_api initial_state
          ''q'' 10) = Inl (UnicodeEncodeError ''codec cannot encode character'')"
    by (simp add: firecrawl_search_def record_query_def initial_state_def
        max_identical_queries_def search_narration_def format_int_def py_print_def
        printable_def and_then_def int_formattable_small utf8_console_def
        lone_surrogate_def Let_def raising_search_api_def search_call_def search_try_def)
  show ?thesis using a b c by blast
qed

section \<open>The envelopes of failed provider calls\<close>

lemma search_is_call:
  assumes "snd (record_query s q) < max_identical_queries"
    and "int_formattable (tool_call_counter s + 1)" and "printable console (take 80 q)"
    and "int_formattable limit"
  shows "fst (firecrawl_search console str_of api s q limit) =
           search_call console str_of (api (search_requests s) q (min limit 20)) q limit"
proof (cases "record_query s q")
  case (Pair s1 n)
  have sr: "search_requests s1 = search_requests s"
    using record_query_requests[of s q] Pair by simp
  have "tool_call_counter s1 = tool_call_counter s + 1"
    using record_query_counter[of s q] Pair by simp
  then have "search_narration console s1 q limit = Inr ()"
    using assms by (intro search_narration_ok) simp_all
  then show ?thesis using Pair sr assms(1)
    by (simp add: firecrawl_search_def Let_def)
qed

lemma search_error_envelope_empty: "empty_search_envelope (search_error_envelope q e) (PInt 0)"
  by (simp add: empty_search_envelope_def search_error_envelope_def nonempty_str_def)

lemma scrape_error_envelope_empty: "empty_scrape_envelope (scrape_error_envelope url e)"
  by (simp add: empty_scrape_envelope_def scrape_error_envelope_def nonempty_str_def)

lemma printable_exception_Inr: "printable_exception console (Inr result)"
  by (simp add: printable_exception_def)

lemma search_call_provider_error:
  assumes "\<not> py_truthy (py_getattr result ''success'' (PBool True))"
  shows "\<exists>env. search_call console str_of (Inr result) q limit = Inr env \<and>
               empty_search_envelope env (PInt 0)"
proof (cases "search_try console str_of (Inr result) q limit")
  case (Inl e)
  then show ?thesis
    using search_call_handled[OF printable_exception_Inr Inl] search_error_envelope_empty
    by blast
next
  case (Inr env)
  then have "env = search_failed_envelope str_of q
                     (py_getattr result ''error'' (PStr ''Unknown error''))"
    using assms
    by (auto simp: search_try_def Let_def and_then_eq_Inr dest!: json_dumps_Inr)
  then have "empty_search_envelope env (PInt 0)"
    by (simp add: empty_search_envelope_def search_failed_envelope_def nonempty_str_def)
  then show ?thesis using Inr by (simp add: search_call_def)
qed

lemma search_call_missing_data:
  assumes "py_truthy (py_getattr result ''success'' (PBool True))"
    and "\<not> py_truthy (py_getattr result ''data'' PNone)"
  shows "search_call console str_of (Inr result) q limit = Inr (no_data_envelope q) \<and>
         empty_search_envelope (no_data_envelope q) (PInt 0)"
proof -
  have "json_dumps (no_data_envelope q) = Inr (no_data_envelope q)"
    by (rule json_dumps_ok) (simp_all add: no_data_envelope_def int_formattable_small)
  then have "search_try console str_of (Inr result) q limit = Inr (no_data_envelope q)"
    using assms by (simp add: search_try_def)
  then have "search_call console str_of (Inr result) q limit = Inr (no_data_envelope q)"
    by (simp add: search_call_def)
  moreover have "empty_search_envelope (no_data_envelope q) (PInt 0)"
    by (simp add: empty_search_envelope_def no_data_envelope_def nonempty_str_def)
  ultimately show ?thesis by blast
qed

lemma search_call_empty_result:
  assumes "py_truthy (py_getattr result ''success'' (PBool True))"
    and "py_truthy (py_getattr result ''data'' PNone)"
    and "no_web_results (py_getattr (py_getattr result ''data'' PNone) ''web'' (PList [])) = Inr True"
  shows "\<exists>env. search_call console str_of (Inr result) q limit = Inr env \<and>
               empty_search_envelope env
                 (if formattable (py_getattr result ''creditsUsed'' (PInt 0)) \<and>
                     printable console (str_of (py_getattr result ''creditsUsed'' (PInt 0))) \<and>
                     json_serializable (py_getattr result ''creditsUsed'' (PInt 0))
                  then py_getattr result ''creditsUsed'' (PInt 0) else PInt 0)"
proof -
  let ?c = "py_getattr result ''creditsUsed'' (PInt 0)"
  have dumped: "search_try console str_of (Inr result) q limit =
      and_then (print_value console str_of ?c) (json_dumps (no_results_envelope q ?c))"
    using assms by (simp add: search_try_def Let_def)
  show ?thesis
  proof (cases "formattable ?c \<and> printable console (str_of ?c) \<and> json_serializable ?c")
    case True
    then have "json_dumps (no_results_envelope q ?c) = Inr (no_results_envelope q ?c)"
      by (intro json_dumps_ok) (simp_all add: no_results_envelope_def int_formattable_small)
    then have "search_try console str_of (Inr result) q limit = Inr (no_results_envelope q ?c)"
      using dumped True by (simp add: print_value_ok and_then_Inr)
    then have "search_call console str_of (Inr result) q limit = Inr (no_results_envelope q ?c)"
      by (simp add: search_call_def)
    moreover have "empty_search_envelope (no_results_envelope q ?c) ?c"
      by (simp add: empty_search_envelope_def no_results_envelope_def nonempty_str_def)
    ultimately show ?thesis using True by auto
  next
    case False
    have "\<exists>e. search_try console str_of (Inr result) q limit = Inl e"
    proof (cases "search_try console str_of (Inr result) q limit")
      case (Inl e)
      then show ?thesis by blast
    next
      case (Inr env)
      then have p: "print_value console str_of ?c = Inr ()"
        and j: "json_dumps (no_results_envelope q ?c) = Inr env"
        using dumped by (simp_all add: and_then_eq_Inr)
      have "formattable ?c \<and> printable console (str_of ?c)"
        using p
        by (auto simp: print_value_def format_value_def py_print_def and_then_def
            split: if_splits sum.splits)
      moreover have "json_serializable ?c"
        using j by (auto simp: json_dumps_def no_results_envelope_def split: if_splits)
      ultimately show ?thesis using False by blast
    qed
    then obtain e where "search_try console str_of (Inr result) q limit = Inl e" by blast
    then have "search_call console str_of (Inr result) q limit =
                 Inr (search_error_envelope q e)"
      by (rule search_call_handled[OF printable_exception_Inr])
    then show ?thesis using False search_error_envelope_empty by auto
  qed
qed

lemma scrape_call_provider_error:
  assumes "\<not> py_truthy (py_getattr result ''success'' (PBool True))"
  shows "\<exists>env. scrape_call console str_of (Inr result) url = Inr env \<and>
               empty_scrape_envelope env"
proof (cases "scrape_try console str_of (Inr result) url")
  case (Inl e)
  then show ?thesis
    using scrape_call_handled[OF printable_exception_Inr Inl] scrape_error_envelope_empty
    by blast
next
  case (Inr env)
  then obtain error50 where "env = scrape_failed_envelope str_of url error50"
    using assms
    by (auto simp: scrape_try_def Let_def and_then_eq_Inr dest!: json_dumps_Inr
        split: sum.splits)
  then have "empty_scrape_envelope env"
    by (simp add: empty_scrape_envelope_def scrape_failed_envelope_def nonempty_str_def)
  then show ?thesis using Inr by (simp add: scrape_call_def)
qed

lemma truncate_markdown_str:
  "truncate_markdown (PStr md) =
     Inr (PStr (if 5000 < length md then take 5000 md @ truncation_marker else md), length md)"
  by (simp add: truncate_markdown_def slice_to_def)

lemma scrape_try_page:
  assumes "py_truthy (py_getattr page ''success'' (PBool True))"
    and "scrape_markdown page = Inr (PStr md)"
    and "length md \<le> sys_maxsize"
  shows "scrape_try console str_of (Inr page) url =
           Inr (scraped_envelope url
                  (PStr (if 5000 < length md then take 5000 md @ truncation_marker else md))
                  (length md))"
proof -
  let ?env = "scraped_envelope url
                (PStr (if 5000 < length md then take 5000 md @ truncation_marker else md))
                (length md)"
  have "json_dumps ?env = Inr ?env"
    using length_formattable[OF assms(3)]
    by (intro json_dumps_ok) (simp_all add: scraped_envelope_def int_formattable_small)
  then show ?thesis using assms(1,2)
    by (simp add: scrape_try_def truncate_markdown_str)
qed

lemma scrape_call_page:
  assumes "py_truthy (py_getattr page ''success'' (PBool True))"
    and "scrape_markdown page = Inr (PStr md)"
    and "length md \<le> sys_maxsize"
  shows "scrape_call console str_of (Inr page) url =
           Inr (scraped_envelope url
                  (PStr (if 5000 < length md then take 5000 md @ truncation_marker else md))
                  (length md))"
  using scrape_try_page[OF assms] by (simp add: scrape_call_def)

text \<open>
  C3 (as amended). Take a search that the loop guard does not short-circuit, or a scrape,
  whose lines before the \<^verbatim>\<open>try\<close> can be printed. If the provider call raises and the
  console can encode the first 100 characters of the exception's message, or if processing
  the provider's response raises (a malformed response), the call returns the handler's
  envelope: \<open>credits_used = 0\<close>, a non-empty note, an empty payload. If the provider
  reports an error, or a search response has no data, the envelope has
  \<open>credits_used = 0\<close>, a non-empty note and an empty payload. If a search returns an empty
  result list, the envelope has a non-empty note and no results, and its \<open>credits_used\<close> is
  the \<open>creditsUsed\<close> the provider reported (0 when it reported none) when that value can be
  printed and serialised, and 0 otherwise. If a scrape response reports success and yields
  no markdown (it has no data, or its data has no markdown, so that the extracted markdown
  is the empty string), the call returns the success envelope: empty content,
  \<open>full_length = 0\<close>, \<open>credits_used = 1\<close> and no note.
\<close>

theorem failed_calls_give_empty_envelopes:
  "(snd (record_query s query) < max_identical_queries \<and>
    int_formattable (tool_call_counter s + 1) \<and> printable console (take 80 query) \<and>
    int_formattable limit \<longrightarrow>
    (((search_api (search_requests s) query (min limit 20) = Inl e \<or>
       search_try console str_of (search_api (search_requests s) query (min limit 20))
         query limit = Inl e) \<and>
      printable_exception console (search_api (search_requests s) query (min limit 20)) \<longrightarrow>
       fst (firecrawl_search console str_of search_api s query limit) =
         Inr (search_error_envelope query e) \<and>
       empty_search_envelope (search_error_envelope query e) (PInt 0)) \<and>
     (search_api (search_requests s) query (min limit 20) = Inr result \<and>
      \<not> py_truthy (py_getattr result ''success'' (PBool True)) \<longrightarrow>
       (\<exists>env. fst (firecrawl_search console str_of search_api s query limit) = Inr env \<and>
              empty_search_envelope env (PInt 0))) \<and>
     (search_api (search_requests s) query (min limit 20) = Inr result \<and>
      py_truthy (py_getattr result ''success'' (PBool True)) \<and>
      \<not> py_truthy (py_getattr result ''data'' PNone) \<longrightarrow>
       (\<exists>env. fst (firecrawl_search console str_of search_api s query limit) = Inr env \<and>
              empty_search_envelope env (PInt 0))) \<and>
     (search_api (search_requests s) query (min limit 20) = Inr result \<and>
      py_truthy (py_getattr result ''success'' (PBool True)) \<and>
      py_truthy (py_getattr result ''data'' PNone) \<and>
      no_web_results (py_getattr (py_getattr result ''data'' PNone) ''web'' (PList [])) =
        Inr True \<longrightarrow>
       (\<exists>env. fst (firecrawl_search console str_of search_api s query limit) = Inr env \<and>
              empty_search_envelope env
                (if formattable (py_getattr result ''creditsUsed'' (PInt 0)) \<and>
                    printable console (str_of (py_getattr result ''creditsUsed'' (PInt 0))) \<and>
                    json_serializable (py_getattr result ''creditsUsed'' (PInt 0))
                 then py_getattr result ''creditsUsed'' (PInt 0) else PInt 0))))) \<and>
   (int_formattable (tool_call_counter s + 1) \<and> printable console url \<longrightarrow>
    (((scrape_api (scrape_requests s) url = Inl e' \<or>
       scrape_try console str_of (scrape_api (scrape_requests s) url) url = Inl e') \<and>
      printable_exception console (scrape_api (scrape_requests s) url) \<longrightarrow>
       fst (firecrawl_scrape console str_of scrape_api s url) =
         Inr (scrape_error_envelope url e') \<and>
       empty_scrape_envelope (scrape_error_envelope url e')) \<and>
     (scrape_api (scrape_requests s) url = Inr page \<and>
      \<not> py_truthy (py_getattr page ''success'' (PBool True)) \<longrightarrow>
       (\<exists>env. fst (firecrawl_scrape console str_of scrape_api s url) = Inr env \<and>
              empty_scrape_envelope env)) \<and>
     (scrape_api (scrape_requests s) url = Inr page \<and>
      py_truthy (py_getattr page ''success'' (PBool True)) \<and>
      scrape_markdown page = Inr (PStr []) \<longrightarrow>
       fst (firecrawl_scrape console str_of scrape_api s url) =
         Inr (scraped_envelope url (PStr []) 0) \<and>
       envelope_get (scraped_envelope url (PStr []) 0) ''content'' = Some (PStr []) \<and>
       envelope_get (scraped_envelope url (PStr []) 0) ''full_length'' = Some (PInt 0) \<and>
       envelope_get (scraped_envelope url (PStr []) 0) ''credits_used'' = Some (PInt 1) \<and>
       envelope_get (scraped_envelope url (PStr []) 0) ''note'' = None)))"
proof (intro conjI impI)
  let ?out = "search_api (search_requests s) query (min limit 20)"
  assume h: "snd (record_query s query) < max_identical_queries \<and>
    int_formattable (tool_call_counter s + 1) \<and> printable console (take 80 query) \<and>
    int_formattable limit"
  then have fs: "fst (firecrawl_search console str_of search_api s query limit) =
              search_call console str_of ?out query limit"
    by (intro search_is_call) simp_all
  {
    assume a: "(?out = Inl e \<or> search_try console str_of ?out query limit = Inl e) \<and>
               printable_exception console ?out"
    then have "search_try console str_of ?out query limit = Inl e"
      by (auto simp: search_try_def)
    then have "search_call console str_of ?out query limit = Inr (search_error_envelope query e)"
      using a search_call_handled by blast
    then show "fst (firecrawl_search console str_of search_api s query limit) =
         Inr (search_error_envelope query e)"
      using fs by simp
    show "empty_search_envelope (search_error_envelope query e) (PInt 0)"
      by (rule search_error_envelope_empty)
  }
  {
    assume "?out = Inr result \<and> \<not> py_truthy (py_getattr result ''success'' (PBool True))"
    then show "\<exists>env. fst (firecrawl_search console str_of search_api s query limit) = Inr env \<and>
              empty_search_envelope env (PInt 0)"
      using fs search_call_provider_error[of result console str_of query limit] by auto
  }
  {
    assume "?out = Inr result \<and> py_truthy (py_getattr result ''success'' (PBool True)) \<and>
      \<not> py_truthy (py_getattr result ''data'' PNone)"
    then show "\<exists>env. fst (firecrawl_search console str_of search_api s query limit) = Inr env \<and>
              empty_search_envelope env (PInt 0)"
      using fs search_call_missing_data[of result console str_of query limit] by auto
  }
  {
    assume "?out = Inr result \<and> py_truthy (py_getattr result ''success'' (PBool True)) \<and>
      py_truthy (py_getattr result ''data'' PNone) \<and>
      no_web_results (py_getattr (py_getattr result ''data'' PNone) ''web'' (PList [])) =
        Inr True"
    then show "\<exists>env. fst (firecrawl_search console str_of search_api s query limit) = Inr env \<and>
              empty_search_envelope env
                (if formattable (py_getattr result ''creditsUsed'' (PInt 0)) \<and>
                    printable console (str_of (py_getattr result ''creditsUsed'' (PInt 0))) \<and>
                    json_serializable (py_getattr result ''creditsUsed'' (PInt 0))
                 then py_getattr result ''creditsUsed'' (PInt 0) else PInt 0)"
      using fs search_call_empty_result[of result console str_of query limit] by auto
  }
next
  let ?page = "scrape_api (scrape_requests s) url"
  assume h: "int_formattable (tool_call_counter s + 1) \<and> printable console url"
  then have fs: "fst (firecrawl_scrape console str_of scrape_api s url) =
      scrape_call console str_of ?page url"
    using scrape_is_call[of s console url str_of scrape_api] by simp
  {
    assume a: "(?page = Inl e' \<or> scrape_try console str_of ?page url = Inl e') \<and>
               printable_exception console ?page"
    then have "scrape_try console str_of ?page url = Inl e'"
      by (auto simp: scrape_try_def)
    then have "scrape_call console str_of ?page url = Inr (scrape_error_envelope url e')"
      using a scrape_call_handled by blast
    then show "fst (firecrawl_scrape console str_of scrape_api s url) =
         Inr (scrape_error_envelope url e')"
      using fs by simp
    show "empty_scrape_envelope (scrape_error_envelope url e')"
      by (rule scrape_error_envelope_empty)
  }
  {
    assume "?page = Inr page \<and> \<not> py_truthy (py_getattr page ''success'' (PBool True))"
    then show "\<exists>env. fst (firecrawl_scrape console str_of scrape_api s url) = Inr env \<and>
              empty_scrape_envelope env"
      using fs scrape_call_provider_error[of page console str_of url] by auto
  }
  {
    assume a: "?page = Inr page \<and> py_truthy (py_getattr page ''success'' (PBool True)) \<and>
      scrape_markdown page = Inr (PStr [])"
    have "length ([] :: string) \<le> sys_maxsize" by simp
    then have "scrape_call console str_of (Inr page) url = Inr (scraped_envelope url (PStr []) 0)"
      using a scrape_call_page[of page "[]" console str_of url] by simp
    then show "fst (firecrawl_scrape console str_of scrape_api s url) =
         Inr (scraped_envelope url (PStr []) 0)"
      using fs a by simp
    show "envelope_get (scraped_envelope url (PStr []) 0) ''content'' = Some (PStr [])"
      by (simp add: scraped_envelope_def)
    show "envelope_get (scraped_envelope url (PStr []) 0) ''full_length'' = Some (PInt 0)"
      by (simp add: scraped_envelope_def)
    show "envelope_get (scraped_envelope url (PStr []) 0) ''credits_used'' = Some (PInt 1)"
      by (simp add: scraped_envelope_def)
    show "envelope_get (scraped_envelope url (PStr []) 0) ''note'' = None"
      by (simp add: scraped_envelope_def)
  }
qed

text \<open>
  The theorem at concrete inputs, from the fresh state: a provider that raises, one that
  reports an error, one that returns no data, one that returns an empty list billed two
  credits, a page whose markdown is null, and a page without data.
\<close>

theorem failed_calls_give_empty_envelopes_witness:
  "snd (record_query initial_state ''q'') < max_identical_queries \<and>
   int_formattable (tool_call_counter initial_state + 1) \<and>
   printable utf8_console (take 80 ''q'') \<and> int_formattable 10 \<and>
   printable utf8_console ''u'' \<and>
   printable_exception utf8_console (Inl (OtherError ''timed out'')) \<and>
   fst (firecrawl_search utf8_console example_str_of
          (\<lambda>earlier q l. Inl (OtherError ''timed out''))
          initial_state ''q'' 10) = Inr (search_error_envelope ''q'' (OtherError ''timed out'')) \<and>
   (\<exists>env. fst (firecrawl_search utf8_console example_str_of (\<lambda>earlier q l. Inr failed_response)
                 initial_state ''q'' 10) = Inr env \<and> empty_search_envelope env (PInt 0)) \<and>
   (\<exists>env. fst (firecrawl_search utf8_console example_str_of (\<lambda>earlier q l. Inr (PObj []))
                 initial_state ''q'' 10) = Inr env \<and> empty_search_envelope env (PInt 0)) \<and>
   (\<exists>env. fst (firecrawl_search utf8_console example_str_of empty_search_api initial_state
                 ''q'' 10) = Inr env \<and>
          empty_search_envelope env (PInt 2)) \<and>
   fst (firecrawl_scrape utf8_console example_str_of null_markdown_api initial_state ''u'') =
     Inr (scrape_error_envelope ''u'' (TypeError ''object is not subscriptable'')) \<and>
   (\<exists>env. fst (firecrawl_scrape utf8_console example_str_of (\<lambda>earlier u. Inr failed_response)
                 initial_state ''u'') = Inr env \<and> empty_scrape_envelope env) \<and>
   fst (firecrawl_scrape utf8_console example_str_of no_data_api initial_state ''u'') =
     Inr (scraped_envelope ''u'' (PStr []) 0)"
proof -
  have hs: "snd (record_query initial_state ''q'') < max_identical_queries \<and>
      int_formattable (tool_call_counter initial_state + 1) \<and>
      printable utf8_console (take 80 ''q'') \<and> int_formattable 10"
    by (simp add: record_query_def initial_state_def max_identical_queries_def
        int_formattable_small printable_def)
  have hu: "int_formattable (tool_call_counter initial_state + 1) \<and>
      printable utf8_console ''u''"
    by (simp add: initial_state_def int_formattable_small printable_def)
  have pe: "printable_exception utf8_console (Inl (OtherError ''timed out''))"
    by (simp add: printable_exception_def printable_def)
  have a: "fst (firecrawl_search utf8_console example_str_of
          (\<lambda>earlier q l. Inl (OtherError ''timed out''))
          initial_state ''q'' 10) = Inr (search_error_envelope ''q'' (OtherError ''timed out''))"
    using failed_calls_give_empty_envelopes[where s = initial_state and query = "''q''"
        and console = utf8_console and limit = 10
        and search_api = "\<lambda>earlier q l. Inl (OtherError ''timed out'')"
        and e = "OtherError ''timed out''" and str_of = example_str_of] hs pe
    by blast
  have b: "\<exists>env. fst (firecrawl_search utf8_console example_str_of
                 (\<lambda>earlier q l. Inr failed_response)
                 initial_state ''q'' 10) = Inr env \<and> empty_search_envelope env (PInt 0)"
  proof -
    have "\<not> py_truthy (py_getattr failed_response ''success'' (PBool True))"
      by (simp add: failed_response_def)
    then show ?thesis
      using failed_calls_give_empty_envelopes[where s = initial_state and query = "''q''"
        and console = utf8_console and limit = 10
        and search_api = "\<lambda>earlier q l. Inr failed_response"
        and result = failed_response and str_of = example_str_of] hs
      by blast
  qed
  have c: "\<exists>env. fst (firecrawl_search utf8_console example_str_of (\<lambda>earlier q l. Inr (PObj []))
                 initial_state ''q'' 10) = Inr env \<and> empty_search_envelope env (PInt 0)"
  proof -
    have "py_truthy (py_getattr (PObj []) ''success'' (PBool True)) \<and>
          \<not> py_truthy (py_getattr (PObj []) ''data'' PNone)"
      by simp
    then show ?thesis
      using failed_calls_give_empty_envelopes[where s = initial_state and query = "''q''"
        and console = utf8_console and limit = 10
        and search_api = "\<lambda>earlier q l. Inr (PObj [])"
        and result = "PObj []" and str_of = example_str_of] hs
      by blast
  qed
  have d: "\<exists>env. fst (firecrawl_search utf8_console example_str_of empty_search_api initial_state
                 ''q'' 10) = Inr env \<and>
          empty_search_envelope env (PInt 2)"
  proof -
    have r: "empty_search_api (search_requests initial_state) ''q'' (min 10 20) =
               Inr empty_search_response"
      by (simp add: empty_search_api_def)
    have p: "py_truthy (py_getattr empty_search_response ''success'' (PBool True)) \<and>
          py_truthy (py_getattr empty_search_response ''data'' PNone) \<and>
          no_web_results (py_getattr (py_getattr empty_search_response ''data'' PNone)
                            ''web'' (PList [])) = Inr True"
      by (simp add: empty_search_response_def no_web_results_def)
    have v: "(if formattable (py_getattr empty_search_response ''creditsUsed'' (PInt 0)) \<and>
                 printable utf8_console
                   (example_str_of (py_getattr empty_search_response ''creditsUsed'' (PInt 0))) \<and>
                 json_serializable (py_getattr empty_search_response ''creditsUsed'' (PInt 0))
              then py_getattr empty_search_response ''creditsUsed'' (PInt 0) else PInt 0) =
             PInt 2"
      by (simp add: empty_search_response_def int_formattable_small printable_def)
    show ?thesis
      using failed_calls_give_empty_envelopes[where s = initial_state and query = "''q''"
        and console = utf8_console and limit = 10
        and search_api = empty_search_api
        and result = empty_search_response and str_of = example_str_of] hs r p
      unfolding v by blast
  qed
  have f: "fst (firecrawl_scrape utf8_console example_str_of null_markdown_api initial_state
                  ''u'') =
     Inr (scrape_error_envelope ''u'' (TypeError ''object is not subscriptable''))"
  proof -
    have t: "scrape_try utf8_console example_str_of
               (null_markdown_api (scrape_requests initial_state) ''u'') ''u'' =
             Inl (TypeError ''object is not subscriptable'')"
      by (simp add: null_markdown_api_def null_markdown_response_def scrape_try_def
          scrape_markdown_def truncate_markdown_def)
    have q: "printable_exception utf8_console
               (null_markdown_api (scrape_requests initial_state) ''u'')"
      by (simp add: null_markdown_api_def printable_exception_def)
    show ?thesis
      using failed_calls_give_empty_envelopes[where s = initial_state and url = "''u''"
        and console = utf8_console and scrape_api = null_markdown_api
        and e' = "TypeError ''object is not subscriptable''" and str_of = example_str_of]
        hu t q
      by blast
  qed
  have g: "\<exists>env. fst (firecrawl_scrape utf8_console example_str_of
                 (\<lambda>earlier u. Inr failed_response)
                 initial_state ''u'') = Inr env \<and> empty_scrape_envelope env"
  proof -
    have "\<not> py_truthy (py_getattr failed_response ''success'' (PBool True))"
      by (simp add: failed_response_def)
    then show ?thesis
      using failed_calls_give_empty_envelopes[where s = initial_state and url = "''u''"
        and console = utf8_console and scrape_api = "\<lambda>earlier u. Inr failed_response"
        and page = failed_response and str_of = example_str_of] hu
      by blast
  qed
  have i: "fst (firecrawl_scrape utf8_console example_str_of no_data_api initial_state ''u'') =
     Inr (scraped_envelope ''u'' (PStr []) 0)"
  proof -
    have r: "no_data_api (scrape_requests initial_state) ''u'' = Inr no_data_response"
      by (simp add: no_data_api_def)
    have p: "py_truthy (py_getattr no_data_response ''success'' (PBool True)) \<and>
             scrape_markdown no_data_response = Inr (PStr [])"
      by (simp add: no_data_response_def scrape_markdown_def)
    show ?thesis
      using failed_calls_give_empty_envelopes[where s = initial_state and url = "''u''"
        and console = utf8_console and scrape_api = no_data_api
        and page = no_data_response and str_of = example_str_of] hu r p
      by blast
  qed
  show ?thesis using hs hu pe a b c d f g i by blast
qed

text \<open>
  The claim as worded fails for an empty result list that the provider billed: the
  envelope carries the provider's two credits, not zero. It also fails for a scrape whose
  response has no content: the envelope carries one credit and no note.
\<close>

theorem empty_result_credits_counterexample:
  "snd (record_query initial_state ''q'') < max_identical_queries \<and>
   empty_search_api (search_requests initial_state) ''q'' (min 10 20) = Inr empty_search_response \<and>
   fst (firecrawl_search utf8_console example_str_of empty_search_api initial_state ''q'' 10) =
     Inr (no_results_envelope ''q'' (PInt 2)) \<and>
   envelope_get (no_results_envelope ''q'' (PInt 2)) ''results'' = Some (PList []) \<and>
   envelope_get (no_results_envelope ''q'' (PInt 2)) ''credits_used'' = Some (PInt 2) \<and>
   envelope_get (no_results_envelope ''q'' (PInt 2)) ''credits_used'' \<noteq> Some (PInt 0) \<and>
   no_data_api (scrape_requests initial_state) ''u'' = Inr no_data_response \<and>
   fst (firecrawl_scrape utf8_console example_str_of no_data_api initial_state ''u'') =
     Inr (scraped_envelope ''u'' (PStr []) 0) \<and>
   envelope_get (scraped_envelope ''u'' (PStr []) 0) ''content'' = Some (PStr []) \<and>
   envelope_get (scraped_envelope ''u'' (PStr []) 0) ''credits_used'' = Some (PInt 1) \<and>
   envelope_get (scraped_envelope ''u'' (PStr []) 0) ''note'' = None"
proof -
  have a: "fst (firecrawl_search utf8_console example_str_of empty_search_api initial_state
                  ''q'' 10) = Inr (no_results_envelope ''q'' (PInt 2))"
    by (simp add: firecrawl_search_def record_query_def initial_state_def
        max_identical_queries_def empty_search_api_def empty_search_response_def
        search_call_def search_try_def no_web_results_def json_dumps_def no_results_envelope_def
        search_narration_def format_int_def py_print_def printable_def print_value_def
        format_value_def and_then_def int_formattable_small Let_def)
  have b: "fst (firecrawl_scrape utf8_console example_str_of no_data_api initial_state ''u'') =
     Inr (scraped_envelope ''u'' (PStr []) 0)"
    by (simp add: firecrawl_scrape_def initial_state_def no_data_api_def no_data_response_def
        scrape_call_def scrape_try_def scrape_markdown_def truncate_markdown_def slice_to_def
        json_dumps_def scraped_envelope_def scrape_narration_def format_int_def py_print_def
        printable_def and_then_def int_formattable_small Let_def)
  show ?thesis using a b
    by (simp add: record_query_def initial_state_def max_identical_queries_def
        empty_search_api_def no_data_api_def no_results_envelope_def scraped_envelope_def)
qed

section \<open>Scraped content and its credits\<close>

text \<open>
  C8. Take a scrape whose lines before the \<^verbatim>\<open>try\<close> can be printed, so that it reaches
  the provider, and whose response reports success and carries a markdown string (of at
  most \<^verbatim>\<open>sys.maxsize\<close> characters, as every Python string is). When the markdown is longer
  than 5000 characters the returned content is its first 5000 characters followed by the
  truncation marker; when it has at most 5000 characters the content is the markdown itself.
\<close>

theorem scrape_truncates_long_content:
  assumes "int_formattable (tool_call_counter s + 1)" and "printable console url"
    and "scrape_api (scrape_requests s) url = Inr page"
    and "py_truthy (py_getattr page ''success'' (PBool True))"
    and "scrape_markdown page = Inr (PStr md)"
    and "length md \<le> sys_maxsize"
  shows "\<exists>env. fst (firecrawl_scrape console str_of scrape_api s url) = Inr env \<and>
           (5000 < length md \<longrightarrow>
              envelope_get env ''content'' = Some (PStr (take 5000 md @ truncation_marker))) \<and>
           (length md \<le> 5000 \<longrightarrow> envelope_get env ''content'' = Some (PStr md))"
proof -
  have "fst (firecrawl_scrape console str_of scrape_api s url) =
          Inr (scraped_envelope url
                 (PStr (if 5000 < length md then take 5000 md @ truncation_marker else md))
                 (length md))"
    using scrape_call_page[OF assms(4,5,6)] assms(3) scrape_is_call[OF assms(1,2)]
    by simp
  then show ?thesis by (simp add: scraped_envelope_def)
qed

theorem scrape_truncates_long_content_witness:
  "int_formattable (tool_call_counter initial_state + 1) \<and> printable utf8_console ''u'' \<and>
   length (replicate 5001 (CHR ''m'')) \<le> sys_maxsize \<and>
   (\<exists>env. fst (firecrawl_scrape utf8_console example_str_of example_scrape_api initial_state
                 ''u'') = Inr env \<and>
          envelope_get env ''content'' =
            Some (PStr (replicate 5000 (CHR ''m'') @ truncation_marker))) \<and>
   (\<exists>env. fst (firecrawl_scrape utf8_console example_str_of (\<lambda>earlier u. Inr short_page_response)
                 initial_state ''u'') = Inr env \<and>
          envelope_get env ''content'' = Some (PStr ''# Title''))"
proof -
  let ?long = "PObj [(''success'', PBool True),
                (''data'', PObj [(''markdown'', PStr (replicate 5001 (CHR ''m'')))]),
                (''creditsUsed'', PInt 7)]"
  have h1: "int_formattable (tool_call_counter initial_state + 1)"
    by (simp add: initial_state_def int_formattable_small)
  have h2: "printable utf8_console ''u''" by (simp add: printable_def)
  have a1: "example_scrape_api (scrape_requests initial_state) ''u'' = Inr ?long"
    by (simp add: example_scrape_api_def)
  have a2: "py_truthy (py_getattr ?long ''success'' (PBool True))" by simp
  have a3: "scrape_markdown ?long = Inr (PStr (replicate 5001 (CHR ''m'')))"
    by (simp add: scrape_markdown_def)
  have a4: "length (replicate 5001 (CHR ''m'')) \<le> sys_maxsize"
    by (simp add: sys_maxsize_def)
  have a: "\<exists>env. fst (firecrawl_scrape utf8_console example_str_of example_scrape_api
                 initial_state ''u'') = Inr env \<and>
          envelope_get env ''content'' =
            Some (PStr (replicate 5000 (CHR ''m'') @ truncation_marker))"
    using scrape_truncates_long_content[where scrape_api = example_scrape_api
        and s = initial_state and url = "''u''" and page = ?long
        and md = "replicate 5001 (CHR ''m'')" and str_of = example_str_of
        and console = utf8_console] h1 h2 a1 a2 a3 a4
    by simp
  have b1: "(\<lambda>earlier u. Inr short_page_response) (scrape_requests initial_state) ''u'' =
              (Inr short_page_response :: pyexn + pyval)"
    by simp
  have b2: "py_truthy (py_getattr short_page_response ''success'' (PBool True))"
    by (simp add: short_page_response_def)
  have b3: "scrape_markdown short_page_response = Inr (PStr ''# Title'')"
    by (simp add: scrape_markdown_def short_page_response_def)
  have b4: "length ''# Title'' \<le> sys_maxsize" by (simp add: sys_maxsize_def)
  have b: "\<exists>env. fst (firecrawl_scrape utf8_console example_str_of
                 (\<lambda>earlier u. Inr short_page_response)
                 initial_state ''u'') = Inr env \<and>
          envelope_get env ''content'' = Some (PStr ''# Title'')"
    using scrape_truncates_long_content[where scrape_api = "\<lambda>earlier u. Inr short_page_response"
        and s = initial_state and url = "''u''" and page = short_page_response
        and md = "''# Title''" and str_of = example_str_of and console = utf8_console]
      h1 h2 b2 b3 b4
    by simp
  show ?thesis using h1 h2 a4 a b by blast
qed

lemma scrape_call_cases:
  "(scrape_succeeded console str_of outcome url \<and>
      (\<exists>truncated n. scrape_call console str_of outcome url =
                       Inr (scraped_envelope url truncated n))) \<or>
   (\<not> scrape_succeeded console str_of outcome url \<and>
      ((\<exists>e. scrape_call console str_of outcome url = Inr (scrape_error_envelope url e)) \<or>
       (\<exists>error50. scrape_call console str_of outcome url =
                    Inr (scrape_failed_envelope str_of url error50)) \<or>
       (\<exists>e. scrape_call console str_of outcome url = Inl e)))"
proof (cases "scrape_try console str_of outcome url")
  case (Inl e)
  have "scrape_call console str_of outcome url = Inr (scrape_error_envelope url e) \<or>
        (\<exists>e'. scrape_call console str_of outcome url = Inl e')"
    using Inl
    by (cases "py_print console (take 100 (exn_str e))")
       (simp_all add: scrape_call_def and_then_def scrape_error_envelope_dumps)
  moreover have "\<not> scrape_succeeded console str_of outcome url"
    using Inl by (auto simp: scrape_succeeded_def split: sum.splits)
  ultimately show ?thesis by blast
next
  case (Inr env)
  then obtain page where page: "outcome = Inr page"
    by (cases outcome) (simp_all add: scrape_try_def)
  have call: "scrape_call console str_of outcome url = Inr env"
    using Inr by (simp add: scrape_call_def)
  show ?thesis
  proof (cases "py_truthy (py_getattr page ''success'' (PBool True))")
    case True
    then have "\<exists>truncated n. env = scraped_envelope url truncated n"
      using Inr page
      by (auto simp: scrape_try_def dest!: json_dumps_Inr split: sum.splits prod.splits)
    moreover have "scrape_succeeded console str_of outcome url"
      using True Inr page by (simp add: scrape_succeeded_def)
    ultimately show ?thesis using call by blast
  next
    case False
    then have "\<exists>error50. env = scrape_failed_envelope str_of url error50"
      using Inr page
      by (auto simp: scrape_try_def Let_def and_then_eq_Inr dest!: json_dumps_Inr
          split: sum.splits)
    moreover have "\<not> scrape_succeeded console str_of outcome url"
      using False page by (simp add: scrape_succeeded_def)
    ultimately show ?thesis using call by blast
  qed
qed

lemma scrape_succeeded_credits:
  assumes "scrape_succeeded console str_of outcome url"
  shows "\<exists>env. scrape_call console str_of outcome url = Inr env \<and>
         envelope_get env ''credits_used'' = Some (PInt 1)"
  using scrape_call_cases[of console str_of outcome url] assms
  by (auto simp: scraped_envelope_def)

lemma scrape_call_counted:
  "foldl count_tool_message so_far (tool_messages (scrape_call console str_of outcome url # rs)) =
   foldl count_tool_message
     (so_far + (if scrape_succeeded console str_of outcome url then 1 else 0))
     (tool_messages rs)"
  using scrape_call_cases[of console str_of outcome url]
  by (auto simp: scraped_envelope_def scrape_error_envelope_def scrape_failed_envelope_def
      count_tool_message_def)

lemma scrape_credits_from:
  "foldl count_tool_message so_far
     (tool_messages (map (\<lambda>c. scrape_call console str_of (fst c) (snd c)) calls)) =
   so_far + int (length (filter (\<lambda>c. scrape_succeeded console str_of (fst c) (snd c)) calls))"
proof (induction calls arbitrary: so_far)
  case Nil
  then show ?case by simp
next
  case (Cons c calls)
  show ?case
    using scrape_call_counted[of so_far console str_of "fst c" "snd c"
        "map (\<lambda>c. scrape_call console str_of (fst c) (snd c)) calls"] Cons.IH
    by simp
qed

text \<open>
  C10 (as amended). A scrape call that reaches the provider (its lines before the
  \<^verbatim>\<open>try\<close> can be printed), in which the provider reports success and the \<^verbatim>\<open>try\<close> block
  runs to its \<^verbatim>\<open>return\<close>, has \<open>credits_used = 1\<close>, whatever \<open>creditsUsed\<close> the provider
  reports; the \<^verbatim>\<open>try\<close> block runs to its \<^verbatim>\<open>return\<close> whenever the markdown of the response
  is a string (of at most \<^verbatim>\<open>sys.maxsize\<close> characters, as every Python string is). The
  credits a run sums up from the envelopes of scrape calls are therefore the number of such
  calls.
\<close>

theorem successful_scrape_costs_one_credit:
  "(int_formattable (tool_call_counter s + 1) \<and> printable console url \<and>
    scrape_succeeded console str_of (scrape_api (scrape_requests s) url) url \<longrightarrow>
      (\<exists>env. fst (firecrawl_scrape console str_of scrape_api s url) = Inr env \<and>
             envelope_get env ''credits_used'' = Some (PInt 1))) \<and>
   (py_truthy (py_getattr page ''success'' (PBool True)) \<and>
    scrape_markdown page = Inr (PStr md) \<and> length md \<le> sys_maxsize \<longrightarrow>
      scrape_succeeded console str_of (Inr page) url) \<and>
   segment_credits
     (tool_messages (map (\<lambda>c. scrape_call console str_of (fst c) (snd c)) calls)) =
     int (length (filter (\<lambda>c. scrape_succeeded console str_of (fst c) (snd c)) calls))"
proof (intro conjI impI)
  assume h: "int_formattable (tool_call_counter s + 1) \<and> printable console url \<and>
    scrape_succeeded console str_of (scrape_api (scrape_requests s) url) url"
  then have "fst (firecrawl_scrape console str_of scrape_api s url) =
      scrape_call console str_of (scrape_api (scrape_requests s) url) url"
    using scrape_is_call[of s console url str_of scrape_api] by simp
  then show "\<exists>env. fst (firecrawl_scrape console str_of scrape_api s url) = Inr env \<and>
             envelope_get env ''credits_used'' = Some (PInt 1)"
    using h scrape_succeeded_credits[of console str_of "scrape_api (scrape_requests s) url" url]
    by simp
next
  assume "py_truthy (py_getattr page ''success'' (PBool True)) \<and>
          scrape_markdown page = Inr (PStr md) \<and> length md \<le> sys_maxsize"
  then show "scrape_succeeded console str_of (Inr page) url"
    using scrape_try_page[of page md console str_of url]
    by (simp add: scrape_succeeded_def)
next
  show "segment_credits
     (tool_messages (map (\<lambda>c. scrape_call console str_of (fst c) (snd c)) calls)) =
     int (length (filter (\<lambda>c. scrape_succeeded console str_of (fst c) (snd c)) calls))"
    using scrape_credits_from[of 0 console str_of calls] by (simp add: segment_credits_def)
qed

theorem successful_scrape_costs_one_credit_witness:
  "py_truthy (py_getattr short_page_response ''success'' (PBool True)) \<and>
   scrape_markdown short_page_response = Inr (PStr ''# Title'') \<and>
   length ''# Title'' \<le> sys_maxsize \<and>
   scrape_succeeded utf8_console example_str_of (Inr short_page_response) ''u'' \<and>
   int_formattable (tool_call_counter initial_state + 1) \<and> printable utf8_console ''u'' \<and>
   (\<exists>env. fst (firecrawl_scrape utf8_console example_str_of (\<lambda>earlier u. Inr short_page_response)
                 initial_state ''u'') = Inr env \<and>
          envelope_get env ''credits_used'' = Some (PInt 1)) \<and>
   segment_credits (tool_messages
      [scrape_call utf8_console example_str_of (Inr short_page_response) ''u'',
       scrape_call utf8_console example_str_of (Inr null_markdown_response) ''v'',
       scrape_call utf8_console example_str_of (Inr short_page_response) ''w'']) = 2"
proof -
  have p1: "py_truthy (py_getattr short_page_response ''success'' (PBool True))"
    by (simp add: short_page_response_def)
  have p2: "scrape_markdown short_page_response = Inr (PStr ''# Title'')"
    by (simp add: scrape_markdown_def short_page_response_def)
  have p3: "length ''# Title'' \<le> sys_maxsize" by (simp add: sys_maxsize_def)
  have h: "int_formattable (tool_call_counter initial_state + 1) \<and> printable utf8_console ''u''"
    by (simp add: initial_state_def int_formattable_small printable_def)
  have ok: "\<And>url. scrape_succeeded utf8_console example_str_of (Inr short_page_response) url"
    using successful_scrape_costs_one_credit[where page = short_page_response
        and md = "''# Title''" and str_of = example_str_of and console = utf8_console]
      p1 p2 p3
    by blast
  have a: "\<exists>env. fst (firecrawl_scrape utf8_console example_str_of
                 (\<lambda>earlier u. Inr short_page_response)
                 initial_state ''u'') = Inr env \<and>
          envelope_get env ''credits_used'' = Some (PInt 1)"
    using successful_scrape_costs_one_credit[where
        scrape_api = "\<lambda>earlier u. Inr short_page_response"
        and s = initial_state and str_of = example_str_of and url = "''u''"
        and console = utf8_console] ok h
    by blast
  have no: "\<not> scrape_succeeded utf8_console example_str_of (Inr null_markdown_response) ''v''"
    by (simp add: scrape_succeeded_def null_markdown_response_def scrape_try_def
        scrape_markdown_def truncate_markdown_def)
  have b: "segment_credits (tool_messages
      [scrape_call utf8_console example_str_of (Inr short_page_response) ''u'',
       scrape_call utf8_console example_str_of (Inr null_markdown_response) ''v'',
       scrape_call utf8_console example_str_of (Inr short_page_response) ''w'']) = 2"
    using successful_scrape_costs_one_credit[where str_of = example_str_of
        and console = utf8_console
        and calls = "[(Inr short_page_response, ''u''), (Inr null_markdown_response, ''v''),
                      (Inr short_page_response, ''w'')]"] ok no
    by simp
  show ?thesis using p1 p2 p3 ok h a b by blast
qed

text \<open>
  The claim as worded fails for a response that reports success and carries a null
  markdown: slicing it raises inside the \<^verbatim>\<open>try\<close> block and the handler's envelope
  has \<open>credits_used = 0\<close>.
\<close>

theorem null_markdown_credits_counterexample:
  "py_truthy (py_getattr null_markdown_response ''success'' (PBool True)) \<and>
   null_markdown_api (scrape_requests initial_state) ''u'' = Inr null_markdown_response \<and>
   fst (firecrawl_scrape utf8_console example_str_of null_markdown_api initial_state ''u'') =
     Inr (scrape_error_envelope ''u'' (TypeError ''object is not subscriptable'')) \<and>
   envelope_get (scrape_error_envelope ''u'' (TypeError ''object is not subscriptable''))
     ''credits_used'' = Some (PInt 0)"
  by (simp add: firecrawl_scrape_def initial_state_def null_markdown_api_def
      null_markdown_response_def scrape_call_def scrape_try_def scrape_markdown_def
      truncate_markdown_def json_dumps_def scrape_error_envelope_def Let_def
      scrape_narration_def format_int_def py_print_def printable_def and_then_def
      int_formattable_small)

section \<open>The credit tracker\<close>

lemma add_operation_totals:
  assumes "total_credits t = sum_list (map credits (operations t))"
    and "total_input_tokens t = sum_list (map input_tokens (operations t))"
    and "total_output_tokens t = sum_list (map output_tokens (operations t))"
  shows "total_credits (add_operation t name c i out meta) =
           sum_list (map credits (operations (add_operation t name c i out meta))) \<and>
         total_input_tokens (add_operation t name c i out meta) =
           sum_list (map input_tokens (operations (add_operation t name c i out meta))) \<and>
         total_output_tokens (add_operation t name c i out meta) =
           sum_list (map output_tokens (operations (add_operation t name c i out meta)))"
  using assms by (simp add: add_operation_def Let_def)

lemma merge_ledgers_totals:
  assumes "total_credits a = sum_list (map credits (operations a))"
    and "total_input_tokens a = sum_list (map input_tokens (operations a))"
    and "total_output_tokens a = sum_list (map output_tokens (operations a))"
    and "total_credits b = sum_list (map credits (operations b))"
    and "total_input_tokens b = sum_list (map input_tokens (operations b))"
    and "total_output_tokens b = sum_list (map output_tokens (operations b))"
  shows "total_credits (merge_ledgers a b) =
           sum_list (map credits (operations (merge_ledgers a b))) \<and>
         total_input_tokens (merge_ledgers a b) =
           sum_list (map input_tokens (operations (merge_ledgers a b))) \<and>
         total_output_tokens (merge_ledgers a b) =
           sum_list (map output_tokens (operations (merge_ledgers a b)))"
  using assms by (simp add: merge_ledgers_def)

text \<open>
  C7. For every ledger built from a fresh \<^verbatim>\<open>CreditTracker\<close> by any finite sequence of
  \<^verbatim>\<open>add_operation\<close> calls and merges, \<open>total_credits\<close> is the sum of the credits of the
  recorded operations, and \<open>total_input_tokens\<close> and \<open>total_output_tokens\<close> are the sums
  of the recorded input and output tokens.
\<close>

theorem ledger_totals_are_sums:
  "total_credits (ledger_of h) = sum_list (map credits (operations (ledger_of h))) \<and>
   total_input_tokens (ledger_of h) = sum_list (map input_tokens (operations (ledger_of h))) \<and>
   total_output_tokens (ledger_of h) = sum_list (map output_tokens (operations (ledger_of h)))"
proof (induction h)
  case Fresh
  show ?case by (simp add: new_tracker_def)
next
  case (Recorded h name c i out meta)
  then show ?case using add_operation_totals[of "ledger_of h" name c i out meta] by simp
next
  case (Merged h1 h2)
  then show ?case using merge_ledgers_totals[of "ledger_of h1" "ledger_of h2"] by simp
qed

section \<open>The pipeline of \<^verbatim>\<open>firecrawl_pipeline.py\<close>\<close>


lemma size_one_components:
  "\<exists>tracker' entry. size_one sizing_agent (tracker, entries, asked) seg =
       (tracker', entries @ [entry], asked @ [seg]) \<and> entry_segment entry = seg"
  by (auto simp: size_one_def Let_def split: sum.splits option.splits)

lemma sizing_loop_components:
  "\<exists>tracker' new. foldl (size_one sizing_agent) (tracker, entries, asked) segs =
       (tracker', entries @ new, asked @ segs) \<and> map entry_segment new = segs"
proof (induction segs arbitrary: tracker entries asked)
  case Nil
  then show ?case by simp
next
  case (Cons seg segs)
  obtain tracker1 entry where one: "size_one sizing_agent (tracker, entries, asked) seg =
       (tracker1, entries @ [entry], asked @ [seg])" and seg: "entry_segment entry = seg"
    using size_one_components by blast
  obtain tracker2 new where rest:
    "foldl (size_one sizing_agent) (tracker1, entries @ [entry], asked @ [seg]) segs =
       (tracker2, (entries @ [entry]) @ new, (asked @ [seg]) @ segs)"
    and new: "map entry_segment new = segs"
    using Cons.IH by blast
  show ?case using one rest seg new
    by (intro exI[of _ tracker2] exI[of _ "entry # new"]) simp
qed

text \<open>
  What the pipeline does with a generated list, the flag unset: the sizing agent is called
  for the primary and secondary segments, in order, and for no others; the run then either
  returns all generated segments with one sizing entry per selected segment, or raises the
  \<^verbatim>\<open>ZeroDivisionError\<close> of line 560.
\<close>

lemma pipeline_sizes_selected_segments:
  "\<exists>r. run_complete_pipeline (Inr \<lparr>credits_used = c, data = Some segments\<rparr>) sizing_agent False =
          (r, filter high_priority segments) \<and>
        (r = Inl (ZeroDivisionError ''division by zero'') \<or>
         (\<exists>out. r = Inr (Some out) \<and> segments_generated out = segments \<and>
                map entry_segment (market_sizing_results out) = filter high_priority segments))"
proof -
  let ?t = "add_operation new_tracker ''Segment Generation'' (credits_or_zero c) 0 0
              (PDict [(''model'', PStr ''spark-1-mini''),
                      (''segments_generated'', PInt (int (length segments))),
                      (''note'', PStr ''Token counts not available from Firecrawl API'')])"
  obtain tracker' new where loop:
    "foldl (size_one sizing_agent) (?t, [], []) (filter high_priority segments) =
       (tracker', [] @ new, [] @ filter high_priority segments)"
    and new: "map entry_segment new = filter high_priority segments"
    using sizing_loop_components[of sizing_agent ?t "[]" "[]"] by blast
  show ?thesis using loop new
    by (auto simp: run_complete_pipeline_def Let_def)
qed

text \<open>
  C6 at the failing input. Ten segments are generated, one primary and two secondary, and
  each of the three sizing calls raises: the tracker then holds the generation entry
  only, line 560 divides by zero and the pipeline raises instead of returning the ten
  segments with three sizing entries. The same run with a sizing agent that answers
  returns them. The pipeline of the agent variant starts its sizing workers for the three
  mock segments of lines 1179 to 1183, whatever was generated.
\<close>

theorem all_sizing_calls_fail_pipeline_raises:
  "filter high_priority ten_segments = three_selected \<and>
   run_complete_pipeline (Inr ten_generated) failing_sizing_agent False =
     (Inl (ZeroDivisionError ''division by zero''), three_selected) \<and>
   (\<exists>out. run_complete_pipeline (Inr ten_generated) working_sizing_agent False =
            (Inr (Some out), three_selected) \<and>
          segments_generated out = ten_segments \<and>
          map entry_segment (market_sizing_results out) = three_selected) \<and>
   snd (run_complete_pipeline_langchain (Inr (Some ten_segments)) agent_run completion_order) =
     mock_segments \<and>
   mock_segments \<noteq> three_selected"
proof -
  have sel: "filter high_priority ten_segments = three_selected"
    by (simp add: ten_segments_def three_selected_def high_priority_def)
  have ops: "\<And>t es asked. foldl (size_one failing_sizing_agent) (t, es, asked) three_selected =
      (t, es @ map (\<lambda>seg. Sizing_error seg ''503 Service Unavailable'') three_selected,
       asked @ three_selected)"
    by (simp add: three_selected_def size_one_def failing_sizing_agent_def)
  have a: "run_complete_pipeline (Inr ten_generated) failing_sizing_agent False =
     (Inl (ZeroDivisionError ''division by zero''), three_selected)"
    by (simp add: run_complete_pipeline_def ten_generated_def sel ops Let_def
        add_operation_def new_tracker_def)
  have b: "\<exists>out. run_complete_pipeline (Inr ten_generated) working_sizing_agent False =
            (Inr (Some out), three_selected) \<and>
          segments_generated out = ten_segments \<and>
          map entry_segment (market_sizing_results out) = three_selected"
    unfolding run_complete_pipeline_def ten_generated_def
    by (simp add: sel Let_def)
       (simp add: three_selected_def size_one_def working_sizing_agent_def Let_def
          add_operation_def new_tracker_def)
  have c: "snd (run_complete_pipeline_langchain (Inr (Some ten_segments)) agent_run
                  completion_order) = mock_segments"
    by (simp add: run_complete_pipeline_langchain_def size_market_for_segments_def Let_def
        mock_segments_def high_priority_def)
  have d: "mock_segments \<noteq> three_selected"
    by (simp add: mock_segments_def three_selected_def)
  show ?thesis using sel a b c d by blast
qed

section \<open>The parallel sizing phase\<close>

text \<open>
  C5 at the failing input. The three mock segments are sized and the worker of the second
  one raises. The other two results are collected, in the order in which the workers
  finish, each under its segment name; for the failed segment the loop over
  \<^verbatim>\<open>as_completed\<close> appends nothing, so the output has no entry for it. The loop of
  \<^verbatim>\<open>firecrawl_pipeline.py\<close> records the error entry for the same failure.
\<close>

theorem failed_worker_leaves_no_entry:
  "snd (size_market_for_segments second_worker_fails [2, 1, 0] mock_segments) = mock_segments \<and>
   results (fst (size_market_for_segments second_worker_fails [2, 1, 0] mock_segments)) =
     [\<lparr>result_segment_name = ''Segment 3'', priority = ''SECONDARY'', usage = some_usage\<rparr>,
      \<lparr>result_segment_name = ''Segment 1'', priority = ''PRIMARY'', usage = some_usage\<rparr>] \<and>
   results (fst (size_market_for_segments second_worker_fails [0, 1, 2] mock_segments)) =
     [\<lparr>result_segment_name = ''Segment 1'', priority = ''PRIMARY'', usage = some_usage\<rparr>,
      \<lparr>result_segment_name = ''Segment 3'', priority = ''SECONDARY'', usage = some_usage\<rparr>] \<and>
   map entry_segment
     (fst (snd (foldl (size_one second_sizing_fails) (new_tracker, [], []) mock_segments))) =
     mock_segments \<and>
   fst (snd (foldl (size_one second_sizing_fails) (new_tracker, [], []) mock_segments)) ! 1 =
     Sizing_error \<lparr>segment_name = ''Segment 2'', description = ''Secondary 1'',
                    priority_level = ''secondary''\<rparr> ''agent run failed''"
proof -
  have up:
       "ascii_upper (CHR ''p'') = CHR ''P''"
       "ascii_upper (CHR ''r'') = CHR ''R''"
       "ascii_upper (CHR ''i'') = CHR ''I''"
       "ascii_upper (CHR ''m'') = CHR ''M''"
       "ascii_upper (CHR ''a'') = CHR ''A''"
       "ascii_upper (CHR ''y'') = CHR ''Y''"
       "ascii_upper (CHR ''s'') = CHR ''S''"
       "ascii_upper (CHR ''e'') = CHR ''E''"
       "ascii_upper (CHR ''c'') = CHR ''C''"
       "ascii_upper (CHR ''o'') = CHR ''O''"
       "ascii_upper (CHR ''n'') = CHR ''N''"
       "ascii_upper (CHR ''d'') = CHR ''D''"
    by code_simp+
  have futures: "map (process_segment second_worker_fails) mock_segments =
      [Inr \<lparr>result_segment_name = ''Segment 1'', priority = ''PRIMARY'', usage = some_usage\<rparr>,
       Inl (OtherError ''agent run failed''),
       Inr \<lparr>result_segment_name = ''Segment 3'', priority = ''SECONDARY'', usage = some_usage\<rparr>]"
    by (simp add: mock_segments_def process_segment_def second_worker_fails_def up)
  have top: "take 3 (filter high_priority mock_segments) = mock_segments"
    by (simp add: mock_segments_def high_priority_def)
  have a: "snd (size_market_for_segments second_worker_fails [2, 1, 0] mock_segments) = mock_segments"
    by (simp add: size_market_for_segments_def Let_def top)
  have b: "results (fst (size_market_for_segments second_worker_fails [2, 1, 0] mock_segments)) =
     [\<lparr>result_segment_name = ''Segment 3'', priority = ''SECONDARY'', usage = some_usage\<rparr>,
      \<lparr>result_segment_name = ''Segment 1'', priority = ''PRIMARY'', usage = some_usage\<rparr>]"
    unfolding size_market_for_segments_def Let_def top futures by simp
  have c: "results (fst (size_market_for_segments second_worker_fails [0, 1, 2] mock_segments)) =
     [\<lparr>result_segment_name = ''Segment 1'', priority = ''PRIMARY'', usage = some_usage\<rparr>,
      \<lparr>result_segment_name = ''Segment 3'', priority = ''SECONDARY'', usage = some_usage\<rparr>]"
    unfolding size_market_for_segments_def Let_def top futures by simp
  have loop: "fst (snd (foldl (size_one second_sizing_fails) (new_tracker, [], []) mock_segments)) =
      [Sized \<lparr>segment_name = ''Segment 1'', description = ''Primary segment'',
               priority_level = ''primary''\<rparr>
             \<lparr>struggle_aware_count = 1000, recommended_scenario = ''Mid''\<rparr> (Some 4),
       Sizing_error \<lparr>segment_name = ''Segment 2'', description = ''Secondary 1'',
                      priority_level = ''secondary''\<rparr> ''agent run failed'',
       Sized \<lparr>segment_name = ''Segment 3'', description = ''Secondary 2'',
               priority_level = ''secondary''\<rparr>
             \<lparr>struggle_aware_count = 1000, recommended_scenario = ''Mid''\<rparr> (Some 4)]"
    by (simp add: mock_segments_def size_one_def second_sizing_fails_def Let_def)
  have d: "map entry_segment
     (fst (snd (foldl (size_one second_sizing_fails) (new_tracker, [], []) mock_segments))) =
     mock_segments"
    unfolding loop by (simp add: mock_segments_def)
  have e: "fst (snd (foldl (size_one second_sizing_fails) (new_tracker, [], []) mock_segments)) ! 1 =
     Sizing_error \<lparr>segment_name = ''Segment 2'', description = ''Secondary 1'',
                    priority_level = ''secondary''\<rparr> ''agent run failed''"
    unfolding loop by simp
  show ?thesis using a b c d e by blast
qed

lemma last_n_append: "last_n n (last_n n xs @ ys) = last_n n (xs @ ys)"
proof (cases "length xs \<le> n")
  case True
  then show ?thesis by (simp add: last_n_def)
next
  case False
  then show ?thesis by (simp add: last_n_def add.commute)
qed

lemma length_last_n: "length (last_n n xs) \<le> n"
  by (simp add: last_n_def)

lemma last_n_last_n: "m \<le> n \<Longrightarrow> last_n m (last_n n xs) = last_n m xs"
proof (cases "length xs \<le> n")
  case True
  then show ?thesis by (simp add: last_n_def)
next
  case False
  assume "m \<le> n"
  then have "length xs - n + (n - m) = length xs - m" using False by simp
  then show ?thesis using False by (simp add: last_n_def add.commute)
qed

lemma record_query_window:
  assumes "length (recent_queries s) \<le> 10"
  shows "recent_queries (fst (record_query s q)) = last_n 10 (recent_queries s @ [q])"
proof (cases "length (recent_queries s) = 10")
  case True
  then have "recent_queries s \<noteq> []" by auto
  then show ?thesis using True
    by (simp add: record_query_def Let_def last_n_def drop_Suc)
next
  case False
  then show ?thesis using assms by (simp add: record_query_def Let_def last_n_def)
qed

text \<open>
  Every call of either tool advances the shared counter, whether it returns or raises; a
  search also records its query in the shared window.
\<close>

lemma firecrawl_search_globals:
  "recent_queries (snd (firecrawl_search console str_of api s q limit)) =
     recent_queries (fst (record_query s q)) \<and>
   tool_call_counter (snd (firecrawl_search console str_of api s q limit)) =
     tool_call_counter s + 1"
proof (cases "record_query s q")
  case (Pair s1 n)
  then have c: "tool_call_counter s1 = tool_call_counter s + 1"
    by (auto simp: record_query_def Let_def)
  show ?thesis
  proof (cases "search_narration console s1 q limit")
    case (Inl e)
    then show ?thesis using Pair c by (simp add: firecrawl_search_def Let_def)
  next
    case (Inr u)
    then show ?thesis using Pair c by (simp add: firecrawl_search_def Let_def)
  qed
qed

lemma firecrawl_scrape_globals:
  "recent_queries (snd (firecrawl_scrape console str_of api s url)) = recent_queries s \<and>
   tool_call_counter (snd (firecrawl_scrape console str_of api s url)) =
     tool_call_counter s + 1"
  by (cases "scrape_narration console (s\<lparr>tool_call_counter := tool_call_counter s + 1\<rparr>) url")
     (simp_all add: firecrawl_scrape_def Let_def)

lemma run_tool_globals:
  assumes "length (recent_queries s) \<le> 10"
  shows "recent_queries (snd (run_tool console str_of search_api scrape_api s (snd call))) =
           last_n 10 (recent_queries s @ search_queries [call]) \<and>
         tool_call_counter (snd (run_tool console str_of search_api scrape_api s (snd call))) =
           tool_call_counter s + 1"
proof (cases call)
  case (Pair w c)
  show ?thesis
  proof (cases c)
    case (Search q limit)
    then show ?thesis
      using Pair firecrawl_search_globals[of console str_of search_api s q limit]
        record_query_window[OF assms, of q]
      by simp
  next
    case (Scrape url)
    then show ?thesis
      using Pair firecrawl_scrape_globals[of console str_of scrape_api s url] assms
      by (simp add: last_n_def)
  qed
qed

lemma search_queries_Cons: "search_queries (call # calls) = search_queries [call] @ search_queries calls"
proof (cases call)
  case (Pair w c)
  then show ?thesis by (cases c) simp_all
qed

lemma run_schedule_globals:
  assumes "length (recent_queries s) \<le> 10"
  shows "recent_queries (snd (run_schedule console str_of search_api scrape_api s schedule)) =
           last_n 10 (recent_queries s @ search_queries schedule) \<and>
         tool_call_counter (snd (run_schedule console str_of search_api scrape_api s schedule)) =
           tool_call_counter s + int (length schedule)"
  using assms
proof (induction schedule arbitrary: s)
  case Nil
  then show ?case by (simp add: last_n_def)
next
  case (Cons call calls)
  obtain r s1 where step: "run_tool console str_of search_api scrape_api s (snd call) = (r, s1)"
    by (cases "run_tool console str_of search_api scrape_api s (snd call)")
  have w1: "recent_queries s1 = last_n 10 (recent_queries s @ search_queries [call])"
    using run_tool_globals[OF Cons.prems, of console str_of search_api scrape_api call] step
    by simp
  have c1: "tool_call_counter s1 = tool_call_counter s + 1"
    using run_tool_globals[OF Cons.prems, of console str_of search_api scrape_api call] step
    by simp
  have len: "length (recent_queries s1) \<le> 10" using w1 length_last_n by metis
  have ih: "recent_queries (snd (run_schedule console str_of search_api scrape_api s1 calls)) =
           last_n 10 (recent_queries s1 @ search_queries calls) \<and>
         tool_call_counter (snd (run_schedule console str_of search_api scrape_api s1 calls)) =
           tool_call_counter s1 + int (length calls)"
    by (rule Cons.IH[OF len])
  have win: "last_n 10 (recent_queries s1 @ search_queries calls) =
          last_n 10 (recent_queries s @ search_queries (call # calls))"
    using w1 last_n_append[of 10 "recent_queries s @ search_queries [call]" "search_queries calls"]
      search_queries_Cons[of call calls]
    by simp
  obtain rs s2 where rest: "run_schedule console str_of search_api scrape_api s1 calls = (rs, s2)"
    by (cases "run_schedule console str_of search_api scrape_api s1 calls")
  have whole: "run_schedule console str_of search_api scrape_api s (call # calls) = (r # rs, s2)"
    using step rest by simp
  have "recent_queries s2 = last_n 10 (recent_queries s @ search_queries (call # calls))"
    using ih rest win by simp
  moreover have "tool_call_counter s2 = tool_call_counter s + int (length (call # calls))"
    using ih rest c1 by simp
  ultimately show ?case unfolding whole by simp
qed

text \<open>
  C4 (as amended). The workers of the sizing phase own no loop guard and no tool-call
  counter: both tools read and write the module globals, which all workers share. Take any
  schedule of search and scrape calls of any workers that do not overlap in time, started
  with at most ten entries in the window. After it the window is the last ten of the
  entries it held before followed by the search queries of all workers in the order of
  their calls, and the counter has advanced by the number of search and scrape calls of
  all workers together. The next search for a query, by whichever worker, is
  short-circuited without a request to the provider when the query occurs at least twice
  among the last nine entries of that sequence.
\<close>

theorem workers_share_loop_guard:
  assumes "length (recent_queries s) \<le> 10"
  shows "recent_queries (snd (run_schedule console str_of search_api scrape_api s schedule)) =
           last_n 10 (recent_queries s @ search_queries schedule) \<and>
         tool_call_counter (snd (run_schedule console str_of search_api scrape_api s schedule)) =
           tool_call_counter s + int (length schedule) \<and>
         (2 \<le> count_list (last_n 9 (recent_queries s @ search_queries schedule)) query \<longrightarrow>
            (\<exists>n s'. firecrawl_search console str_of search_api
                       (snd (run_schedule console str_of search_api scrape_api s schedule))
                       query limit = (Inr (loop_envelope str_of query n), s') \<and>
                    3 \<le> n \<and>
                    search_requests s' =
                      search_requests
                        (snd (run_schedule console str_of search_api scrape_api s schedule))))"
proof -
  let ?after = "snd (run_schedule console str_of search_api scrape_api s schedule)"
  have g: "recent_queries ?after = last_n 10 (recent_queries s @ search_queries schedule) \<and>
           tool_call_counter ?after = tool_call_counter s + int (length schedule)"
    by (rule run_schedule_globals[OF assms])
  have "2 \<le> count_list (last_n 9 (recent_queries s @ search_queries schedule)) query \<longrightarrow>
            (\<exists>n s'. firecrawl_search console str_of search_api ?after query limit =
                       (Inr (loop_envelope str_of query n), s') \<and>
                    3 \<le> n \<and> search_requests s' = search_requests ?after)"
  proof
    assume h: "2 \<le> count_list (last_n 9 (recent_queries s @ search_queries schedule)) query"
    have "last_n 9 (recent_queries ?after) =
            last_n 9 (recent_queries s @ search_queries schedule)"
      using g by (simp add: last_n_last_n)
    then have "2 \<le> count_list (drop (length (recent_queries ?after) - 9)
                                  (recent_queries ?after)) query"
      using h by (simp add: last_n_def)
    then have c: "3 \<le> snd (record_query ?after query)" by (rule record_query_count)
    have "firecrawl_search console str_of search_api ?after query limit =
            (Inr (loop_envelope str_of query (snd (record_query ?after query))),
             fst (record_query ?after query))"
      by (rule search_short_circuit[OF c])
    then show "\<exists>n s'. firecrawl_search console str_of search_api ?after query limit =
                       (Inr (loop_envelope str_of query n), s') \<and>
                    3 \<le> n \<and> search_requests s' = search_requests ?after"
      using c record_query_requests[of ?after query] by blast
  qed
  then show ?thesis using g by blast
qed

lemma short_page_scrape:
  "scrape_try utf8_console example_str_of (Inr short_page_response) url =
     Inr (scraped_envelope url (PStr ''# Title'') 7)"
  by (simp add: scrape_try_def short_page_response_def scrape_markdown_def
      truncate_markdown_def slice_to_def json_dumps_def scraped_envelope_def
      int_formattable_small)

lemma example_scrape_narration:
  "\<bar>tool_call_counter s\<bar> < 1000000 \<Longrightarrow> lone_surrogate \<notin> set url \<Longrightarrow>
   scrape_narration utf8_console s url = Inr ()"
proof (rule scrape_narration_ok)
  assume a: "\<bar>tool_call_counter s\<bar> < 1000000" and c: "lone_surrogate \<notin> set url"
  show "int_formattable (tool_call_counter s)" using a by (rule int_formattable_small)
  show "printable utf8_console url"
    using c unfolding printable_def utf8_console_def list_all_iff by auto
qed

lemma first_worker_run:
  "run_schedule utf8_console example_str_of example_search_api short_page_api initial_state
     first_worker_calls =
     ([Inr (one_page_envelope ''x''),
       Inr (scraped_envelope ''https://example.org/a'' (PStr ''# Title'') 7),
       Inr (one_page_envelope ''x'')],
      \<lparr>tool_call_counter = 3, recent_queries = [''x'', ''x''],
       search_requests = [(''x'', 10), (''x'', 10)],
       scrape_requests = [''https://example.org/a'']\<rparr>)"
  by (simp add: first_worker_calls_def firecrawl_search_def firecrawl_scrape_def
      record_query_def initial_state_def max_identical_queries_def example_search_api_def
      short_page_api_def search_call_def scrape_call_def one_page_search short_page_scrape
      example_narration example_scrape_narration lone_surrogate_def Let_def)

lemma run_schedule_append:
  "run_schedule console str_of search_api scrape_api s (xs @ ys) =
     (let (rs1, s1) = run_schedule console str_of search_api scrape_api s xs;
          (rs2, s2) = run_schedule console str_of search_api scrape_api s1 ys
      in (rs1 @ rs2, s2))"
  by (induction xs arbitrary: s) (simp_all add: Let_def split: prod.splits)

lemma two_worker_run:
  "run_schedule utf8_console example_str_of example_search_api short_page_api initial_state
     two_worker_schedule =
     ([Inr (one_page_envelope ''x''),
       Inr (scraped_envelope ''https://example.org/a'' (PStr ''# Title'') 7),
       Inr (one_page_envelope ''x''),
       Inr (loop_envelope example_str_of ''x'' 3)],
      \<lparr>tool_call_counter = 4, recent_queries = [''x'', ''x'', ''x''],
       search_requests = [(''x'', 10), (''x'', 10)],
       scrape_requests = [''https://example.org/a'']\<rparr>)"
  unfolding two_worker_schedule_def run_schedule_append first_worker_run
  by (simp add: firecrawl_search_def record_query_def max_identical_queries_def
      loop_envelope_serializable Let_def numeral_3_eq_3)

text \<open>
  The theorem at a concrete input: after the two searches for \<^verbatim>\<open>x\<close> and the scrape of
  worker 1 in a fresh run, the window holds \<^verbatim>\<open>x\<close> twice, the counter stands at 3, and the
  next search for \<^verbatim>\<open>x\<close> is short-circuited.
\<close>

theorem workers_share_loop_guard_witness:
  "length (recent_queries initial_state) \<le> 10 \<and>
   2 \<le> count_list (last_n 9 (recent_queries initial_state @ search_queries first_worker_calls))
         ''x'' \<and>
   recent_queries (snd (run_schedule utf8_console example_str_of example_search_api
                          short_page_api initial_state first_worker_calls)) = [''x'', ''x''] \<and>
   tool_call_counter (snd (run_schedule utf8_console example_str_of example_search_api
                             short_page_api initial_state first_worker_calls)) = 3 \<and>
   (\<exists>n s'. firecrawl_search utf8_console example_str_of example_search_api
              (snd (run_schedule utf8_console example_str_of example_search_api
                      short_page_api initial_state first_worker_calls)) ''x'' 10 =
              (Inr (loop_envelope example_str_of ''x'' n), s') \<and> 3 \<le> n \<and>
            search_requests s' = [(''x'', 10), (''x'', 10)])"
proof -
  let ?after = "snd (run_schedule utf8_console example_str_of example_search_api
                       short_page_api initial_state first_worker_calls)"
  have h: "length (recent_queries initial_state) \<le> 10" by (simp add: initial_state_def)
  have q: "recent_queries initial_state @ search_queries first_worker_calls = [''x'', ''x'']"
    by (simp add: initial_state_def first_worker_calls_def)
  have h2: "2 \<le> count_list (last_n 9 (recent_queries initial_state @
                                       search_queries first_worker_calls)) ''x''"
    unfolding q by (simp add: last_n_def)
  have sr: "search_requests ?after = [(''x'', 10), (''x'', 10)]"
    unfolding first_worker_run by simp
  have w: "recent_queries ?after =
             last_n 10 (recent_queries initial_state @ search_queries first_worker_calls)"
    and c: "tool_call_counter ?after =
             tool_call_counter initial_state + int (length first_worker_calls)"
    using workers_share_loop_guard[OF h, of utf8_console example_str_of example_search_api
        short_page_api first_worker_calls]
    by blast+
  obtain n s' where "firecrawl_search utf8_console example_str_of example_search_api ?after
                       ''x'' 10 = (Inr (loop_envelope example_str_of ''x'' n), s')"
    and "3 \<le> n" and "search_requests s' = search_requests ?after"
    using workers_share_loop_guard[OF h, of utf8_console example_str_of example_search_api
        short_page_api first_worker_calls "''x''" 10] h2
    by blast
  then have l: "\<exists>n s'. firecrawl_search utf8_console example_str_of example_search_api ?after
                       ''x'' 10 = (Inr (loop_envelope example_str_of ''x'' n), s') \<and> 3 \<le> n \<and>
                     search_requests s' = [(''x'', 10), (''x'', 10)]"
    using sr by auto
  have w': "recent_queries ?after = [''x'', ''x'']"
    using w unfolding q by (simp add: last_n_def)
  have c': "tool_call_counter ?after = 3"
    using c by (simp add: initial_state_def first_worker_calls_def)
  show ?thesis using h h2 w' c' l by blast
qed

text \<open>
  The claim as worded fails. Worker 1 searches for \<^verbatim>\<open>x\<close>, scrapes a page and searches for
  \<^verbatim>\<open>x\<close> again; then worker 2 searches for \<^verbatim>\<open>x\<close> for the first time: its call is the third
  in the shared window and is short-circuited, and it is numbered as tool call 4. Run by
  itself from the same state, the call of worker 2 reaches the provider and is tool call 1.
\<close>

theorem shared_loop_guard_counterexample:
  "calls_of 2 two_worker_schedule = [(2, Search ''x'' 10)] \<and>
   results_of 2 two_worker_schedule
     (fst (run_schedule utf8_console example_str_of example_search_api short_page_api
             initial_state two_worker_schedule)) =
     [Inr (loop_envelope example_str_of ''x'' 3)] \<and>
   fst (run_schedule utf8_console example_str_of example_search_api short_page_api
          initial_state (calls_of 2 two_worker_schedule)) = [Inr (one_page_envelope ''x'')] \<and>
   Inr (loop_envelope example_str_of ''x'' 3) \<noteq>
     (Inr (one_page_envelope ''x'') :: pyexn + pyval) \<and>
   tool_call_counter (snd (run_schedule utf8_console example_str_of example_search_api
                             short_page_api initial_state two_worker_schedule)) = 4 \<and>
   tool_call_counter (snd (run_schedule utf8_console example_str_of example_search_api
                             short_page_api initial_state
                             (calls_of 2 two_worker_schedule))) = 1"
proof -
  have c: "calls_of 2 two_worker_schedule = [(2, Search ''x'' 10)]"
    by (simp add: calls_of_def two_worker_schedule_def first_worker_calls_def)
  have alone: "run_schedule utf8_console example_str_of example_search_api short_page_api
                 initial_state [(2, Search ''x'' 10)] =
     ([Inr (one_page_envelope ''x'')],
      \<lparr>tool_call_counter = 1, recent_queries = [''x''],
       search_requests = [(''x'', 10)], scrape_requests = []\<rparr>)"
    by (simp add: firecrawl_search_def record_query_def initial_state_def
        max_identical_queries_def example_search_api_def search_call_def one_page_search
        example_narration lone_surrogate_def Let_def)
  have differ: "Inr (loop_envelope example_str_of ''x'' 3) \<noteq>
     (Inr (one_page_envelope ''x'') :: pyexn + pyval)"
    by (simp add: loop_envelope_def one_page_envelope_def found_envelope_def)
  have r: "results_of 2 two_worker_schedule
     (fst (run_schedule utf8_console example_str_of example_search_api short_page_api
             initial_state two_worker_schedule)) =
     [Inr (loop_envelope example_str_of ''x'' 3)]"
    unfolding two_worker_run
    by (simp add: results_of_def two_worker_schedule_def first_worker_calls_def)
  show ?thesis using c alone differ r two_worker_run by simp
qed


end
